theory Spec2Isabelle
  imports Complex_Main "HOL-Library.Sublist"
begin

section \<open>Python text\<close>

text \<open>
  A Python \<open>str\<close> is a sequence of Unicode code points, so text is a list of code points
  and \<open>len\<close> is \<open>length\<close>.  \<open>lit\<close> turns an ASCII literal of the source into that form.
\<close>

type_synonym pystr = "nat list"

definition lit :: "string \<Rightarrow> pystr" where
  "lit s = map of_char s"

text \<open>
  The characters \<open>str.strip()\<close> removes: the code points for which \<open>str.isspace\<close> holds.
\<close>

definition py_isspace :: "nat \<Rightarrow> bool" where
  "py_isspace c \<longleftrightarrow>
     (9 \<le> c \<and> c \<le> 13) \<or> (28 \<le> c \<and> c \<le> 32) \<or> c = 133 \<or> c = 160 \<or> c = 5760 \<or>
     (8192 \<le> c \<and> c \<le> 8202) \<or> c = 8232 \<or> c = 8233 \<or> c = 8239 \<or> c = 8287 \<or> c = 12288"

definition py_strip :: "pystr \<Rightarrow> pystr" where
  "py_strip s = rev (dropWhile py_isspace (rev (dropWhile py_isspace s)))"

definition startswith :: "pystr \<Rightarrow> pystr \<Rightarrow> bool" where
  "startswith s p \<longleftrightarrow> take (length p) s = p"

definition is_ascii :: "pystr \<Rightarrow> bool" where
  "is_ascii s = list_all (\<lambda>c. c < 128) s"

definition ascii_upper :: "nat \<Rightarrow> nat" where
  "ascii_upper c = (if 97 \<le> c \<and> c \<le> 122 then c - 32 else c)"

definition ascii_lower :: "nat \<Rightarrow> nat" where
  "ascii_lower c = (if 65 \<le> c \<and> c \<le> 90 then c + 32 else c)"

text \<open>
  \<open>str.isalnum\<close> on the code points below 256 (the ASCII letters and digits, and the
  letters, superscript digits and vulgar fractions of Latin-1).
\<close>

definition latin1_isalnum :: "nat \<Rightarrow> bool" where
  "latin1_isalnum c \<longleftrightarrow>
     (48 \<le> c \<and> c \<le> 57) \<or> (65 \<le> c \<and> c \<le> 90) \<or> (97 \<le> c \<and> c \<le> 122) \<or>
     c = 170 \<or> c = 178 \<or> c = 179 \<or> c = 181 \<or> c = 185 \<or> c = 186 \<or> (188 \<le> c \<and> c \<le> 190) \<or>
     (192 \<le> c \<and> c \<le> 214) \<or> (216 \<le> c \<and> c \<le> 246) \<or> (248 \<le> c \<and> c \<le> 255)"


section \<open>Data\<close>

text \<open>
  A cell of the frame \<open>pandas.read_csv\<close> returns is modelled by the text \<open>str()\<close> gives
  for it; the \<open>NaN\<close> of an empty field is kept apart (\<open>str(nan)\<close> is \<open>'nan'\<close>).  A row
  is the row's dictionary (\<open>row.to_dict()\<close>): column name, cell.
\<close>

datatype cell = Text pystr | NaN

fun py_str :: "cell \<Rightarrow> pystr" where
  "py_str (Text s) = s"
| "py_str NaN = lit ''nan''"

type_synonym row = "(pystr \<times> cell) list"

record frame =
  columns :: "pystr list"
  rows :: "row list"

text \<open>The fields of \<open>Product\<close> the processor reads or writes; \<open>description\<close> is nullable.\<close>

record product =
  product_id :: pystr
  productCode :: pystr
  name :: pystr
  description :: "pystr option"
  createdAt :: nat
  modifiedAt :: nat

datatype exn =
    KeyError pystr
  | ValueError pystr
  | ZeroDivisionError pystr
  | Foreign pystr

text \<open>
  \<open>str(e)\<close>.  A \<open>KeyError\<close> prints the \<open>repr\<close> of its key; the keys the processor looks
  up are literals of the source without quotes or escapes.  A \<open>ZeroDivisionError\<close>
  carries the message the interpreter gives it.  \<open>Foreign\<close> is an exception raised by
  a collaborator (the database, pandas), carrying its message.
\<close>

fun exn_str :: "exn \<Rightarrow> pystr" where
  "exn_str (KeyError k) = 39 # k @ [39]"
| "exn_str (ValueError m) = m"
| "exn_str (ZeroDivisionError m) = m"
| "exn_str (Foreign m) = m"

datatype err_context = RowCtx row | FileCtx pystr

record error_record =
  category :: pystr
  message :: pystr
  err_ctx :: err_context

text \<open>
  The counters of \<open>self.stats\<close> that \<open>product.py\<close> touches: the three of the base
  processor (\<open>total_errors\<close>, \<open>successful_batches\<close>, \<open>failed_batches\<close>) and the five
  \<open>ProductProcessor.__init__\<close> adds.
\<close>

record stats =
  total_errors :: int
  successful_batches :: int
  failed_batches :: int
  total_products :: int
  created :: int
  updated :: int
  skipped :: int
  validation_errors :: int

text \<open>
  The processor object: \<open>batch_size\<close>, \<open>stats\<close>, the error tracker's records,
  \<open>processed_codes\<close>.  \<open>tick\<close> is not a field of the source: it counts the readings of
  the clock taken so far, and selects the next answer of \<open>utcnow\<close> and \<open>generate_uuid\<close>.
\<close>

record processor =
  batch_size :: int
  stats :: stats
  error_tracker :: "error_record list"
  processed_codes :: "pystr set"
  tick :: nat

text \<open>
  What the processor takes from outside \<open>product.py\<close>, as parameters:
  the Unicode tables beyond the part written out above (\<open>isalnum_ext\<close> for code points
  from 256 on, \<open>upper_ext\<close> and \<open>lower_ext\<close> for text that is not ASCII);
  \<open>is_system_product\<close> and \<open>initialize_system_products\<close> of \<open>utils.system_products\<close>
  (the latter maps the stored products to the stored products after it, or raises);
  \<open>pandas.read_csv\<close>; the exception, if any, that a query on a session and a commit of a
  session raise; the clock and the identifier generator; the message of the
  interpreter's \<open>ZeroDivisionError\<close>.
\<close>

record env =
  isalnum_ext :: "nat \<Rightarrow> bool"
  upper_ext :: "pystr \<Rightarrow> pystr"
  lower_ext :: "pystr \<Rightarrow> pystr"
  is_system_product :: "pystr \<Rightarrow> bool"
  initialize_system_products :: "product list \<Rightarrow> exn + product list"
  read_csv :: "pystr \<Rightarrow> exn + frame"
  query_raises :: "product list \<Rightarrow> pystr \<Rightarrow> exn option"
  commit_raises :: "product list \<Rightarrow> exn option"
  utcnow :: "nat \<Rightarrow> nat"
  generate_uuid :: "nat \<Rightarrow> pystr"
  division_message :: pystr

definition py_isalnum :: "env \<Rightarrow> nat \<Rightarrow> bool" where
  "py_isalnum E c = (if c < 256 then latin1_isalnum c else isalnum_ext E c)"

definition py_upper :: "env \<Rightarrow> pystr \<Rightarrow> pystr" where
  "py_upper E s = (if is_ascii s then map ascii_upper s else upper_ext E s)"

definition py_lower :: "env \<Rightarrow> pystr \<Rightarrow> pystr" where
  "py_lower E s = (if is_ascii s then map ascii_lower s else lower_ext E s)"

section \<open>The error tracker\<close>

text \<open>
  Modelled from the spec: \<open>processors/error_tracker.py\<close> is not among the sources.
  \<open>add_error(category, message, context)\<close> appends one structured record and never
  fails; \<open>get_summary()\<close> gives the counts by category and the list of records.
\<close>

definition add_error :: "pystr \<Rightarrow> pystr \<Rightarrow> err_context \<Rightarrow> error_record list \<Rightarrow> error_record list" where
  "add_error cat msg ctx errs = errs @ [\<lparr>category = cat, message = msg, err_ctx = ctx\<rparr>]"

definition get_summary :: "error_record list \<Rightarrow> (pystr \<Rightarrow> nat) \<times> error_record list" where
  "get_summary errs = (\<lambda>c. length (filter (\<lambda>e. category e = c) errs), errs)"

section \<open>Validation\<close>

definition validate_product_code :: "env \<Rightarrow> pystr \<Rightarrow> pystr option" where
  "validate_product_code E product_code =
     (if product_code = [] then Some (lit ''Product code is required'')
      else if length product_code > 50 then Some (lit ''Product code exceeds maximum length'')
      else if \<not> list_all (\<lambda>c. py_isalnum E c \<or> c \<in> set (lit ''-_.'')) product_code
        then Some (lit ''Product code contains invalid characters (only letters, numbers, hyphen, underscore, and period allowed)'')
      else None)"

definition validate_description :: "pystr \<Rightarrow> pystr option" where
  "validate_description d =
     (if d = [] then None
      else if length d > 500 then Some (lit ''Description exceeds maximum length'')
      else None)"

definition opt_list :: "'a option \<Rightarrow> 'a list" where
  "opt_list x = (case x of None \<Rightarrow> [] | Some e \<Rightarrow> [e])"

definition validate_product_data :: "env \<Rightarrow> pystr \<Rightarrow> pystr \<Rightarrow> pystr list" where
  "validate_product_data E product_code d =
     opt_list (validate_product_code E product_code) @
     opt_list (validate_description d) @
     (if startswith product_code (lit ''TEST-'')
        then [lit ''Test products not allowed in production''] else []) @
     (if d \<noteq> [] \<and> startswith (py_lower E d) (lit ''deprecated'')
        then [lit ''Deprecated products should not be imported''] else [])"


section \<open>The row handler\<close>

text \<open>A dictionary lookup \<open>d[k]\<close>: a missing key raises \<open>KeyError\<close>.\<close>

definition dict_get :: "(pystr \<times> 'v) list \<Rightarrow> pystr \<Rightarrow> exn + 'v" where
  "dict_get d k = (case map_of d k of None \<Rightarrow> Inl (KeyError k) | Some v \<Rightarrow> Inr v)"

definition add_skipped :: "processor \<Rightarrow> processor" where
  "add_skipped P = P\<lparr>stats := (stats P)\<lparr>skipped := skipped (stats P) + 1\<rparr>\<rparr>"

definition add_updated :: "processor \<Rightarrow> processor" where
  "add_updated P = P\<lparr>stats := (stats P)\<lparr>updated := updated (stats P) + 1\<rparr>\<rparr>"

definition add_created :: "processor \<Rightarrow> processor" where
  "add_created P = P\<lparr>stats := (stats P)\<lparr>created := created (stats P) + 1\<rparr>\<rparr>"

definition add_total_products :: "processor \<Rightarrow> processor" where
  "add_total_products P = P\<lparr>stats := (stats P)\<lparr>total_products := total_products (stats P) + 1\<rparr>\<rparr>"

definition add_total_errors :: "processor \<Rightarrow> processor" where
  "add_total_errors P = P\<lparr>stats := (stats P)\<lparr>total_errors := total_errors (stats P) + 1\<rparr>\<rparr>"

text \<open>
  Lines 207 to 215: the validation errors are counted, and each is recorded with the
  row as its context.
\<close>

definition reject :: "row \<Rightarrow> pystr list \<Rightarrow> processor \<Rightarrow> processor" where
  "reject r verrs P =
     P\<lparr>stats := (stats P)\<lparr>validation_errors := validation_errors (stats P) + int (length verrs)\<rparr>,
       error_tracker := foldl (\<lambda>errs e. add_error (lit ''validation'') e (RowCtx r) errs)
                          (error_tracker P) verrs\<rparr>"

text \<open>
  \<open>session.query(Product).filter(Product.productCode == product_code).first()\<close> on the
  products of the session, and the assignment to the fields of the object it returns.
\<close>

definition query_first :: "product list \<Rightarrow> pystr \<Rightarrow> product option" where
  "query_first s product_code = find (\<lambda>p. productCode p = product_code) s"

fun update_first :: "('a \<Rightarrow> bool) \<Rightarrow> ('a \<Rightarrow> 'a) \<Rightarrow> 'a list \<Rightarrow> 'a list" where
  "update_first Q f [] = []"
| "update_first Q f (x # xs) = (if Q x then f x # xs else x # update_first Q f xs)"

text \<open>
  Lines 224 to 255, for a row that passed validation and the two skips.  The result is the
  exception raised, if any, with the processor and the session as they are then.
\<close>

definition upsert ::
  "env \<Rightarrow> pystr \<Rightarrow> pystr \<Rightarrow> processor \<Rightarrow> product list \<Rightarrow> exn option \<times> processor \<times> product list" where
  "upsert E product_code d P s =
     (let P1 = add_total_products (P\<lparr>processed_codes := insert product_code (processed_codes P)\<rparr>) in
      case query_raises E s product_code of
        Some e \<Rightarrow> (Some e, P1, s)
      | None \<Rightarrow>
          (let now = utcnow E (tick P1);
               P2 = P1\<lparr>tick := Suc (tick P1)\<rparr> in
           case query_first s product_code of
             Some p \<Rightarrow>
               if d \<noteq> [] \<and> Some d \<noteq> description p
               then (None, add_updated P2,
                     update_first (\<lambda>q. productCode q = product_code)
                       (\<lambda>q. q\<lparr>description := Some d, modifiedAt := now\<rparr>) s)
               else (None, add_skipped P2, s)
           | None \<Rightarrow>
               (None, add_created P2,
                s @ [\<lparr>product_id = generate_uuid E (tick P1), productCode = product_code,
                       name = product_code, description = Some d,
                       createdAt = now, modifiedAt = now\<rparr>])))"

text \<open>Lines 203 and 204: the two fields of the row, as the handler reads them.\<close>

definition row_fields :: "env \<Rightarrow> (pystr \<times> pystr) list \<Rightarrow> row \<Rightarrow> exn + (pystr \<times> pystr)" where
  "row_fields E header_mapping r =
     (case dict_get header_mapping (lit ''product_code'') of Inl e \<Rightarrow> Inl e | Inr ccol \<Rightarrow>
      case dict_get r ccol of Inl e \<Rightarrow> Inl e | Inr cc \<Rightarrow>
      case dict_get header_mapping (lit ''description'') of Inl e \<Rightarrow> Inl e | Inr dcol \<Rightarrow>
      case dict_get r dcol of Inl e \<Rightarrow> Inl e | Inr dc \<Rightarrow>
        Inr (py_upper E (py_strip (py_str cc)), py_strip (py_str dc)))"

text \<open>The body of the \<open>try\<close> of \<open>_process_row\<close>.\<close>

definition row_try ::
  "env \<Rightarrow> (pystr \<times> pystr) list \<Rightarrow> row \<Rightarrow> processor \<Rightarrow> product list \<Rightarrow> exn option \<times> processor \<times> product list" where
  "row_try E header_mapping r P s =
     (case row_fields E header_mapping r of
        Inl e \<Rightarrow> (Some e, P, s)
      | Inr (product_code, d) \<Rightarrow>
          (let verrs = validate_product_data E product_code d in
           if verrs \<noteq> [] then (None, reject r verrs P, s)
           else if product_code \<in> processed_codes P then (None, add_skipped P, s)
           else if is_system_product E product_code then (None, add_skipped P, s)
           else upsert E product_code d P s))"

text \<open>
  \<open>_process_row\<close>: the \<open>try\<close> and its \<open>except Exception\<close>, which records the exception
  and counts it.  The first component is the exception that leaves the handler.
\<close>

definition process_row ::
  "env \<Rightarrow> (pystr \<times> pystr) list \<Rightarrow> row \<Rightarrow> processor \<Rightarrow> product list \<Rightarrow> exn option \<times> processor \<times> product list" where
  "process_row E header_mapping r P s =
     (case row_try E header_mapping r P s of
        (None, P', s') \<Rightarrow> (None, P', s')
      | (Some e, P', s') \<Rightarrow>
          (None,
           add_total_errors
             (P'\<lparr>error_tracker := add_error (lit ''processing'') (exn_str e) (RowCtx r) (error_tracker P')\<rparr>),
           s'))"

section \<open>The file\<close>

text \<open>Lines 33 to 36 and 70 to 77: the header mapping and the check of the columns.\<close>

definition field_mappings :: "(pystr \<times> pystr list) list" where
  "field_mappings =
     [(lit ''product_code'', [lit ''Product/Service'']),
      (lit ''description'', [lit ''Product/Service Description''])]"

definition header_mapping_of :: "pystr list \<Rightarrow> (pystr \<times> pystr) list" where
  "header_mapping_of cols =
     concat (map (\<lambda>(std_field, possible_names).
                    case find (\<lambda>n. n \<in> set cols) possible_names of
                      None \<Rightarrow> []
                    | Some n \<Rightarrow> [(std_field, n)]) field_mappings)"

definition all_fields_mapped :: "(pystr \<times> pystr) list \<Rightarrow> bool" where
  "all_fields_mapped header_mapping =
     list_all (\<lambda>(std_field, _). map_of header_mapping std_field \<noteq> None) field_mappings"

text \<open>The rows of a batch, in order; an exception leaving a row ends the loop.\<close>

fun process_rows ::
  "env \<Rightarrow> (pystr \<times> pystr) list \<Rightarrow> row list \<Rightarrow> processor \<Rightarrow> product list \<Rightarrow> exn option \<times> processor \<times> product list" where
  "process_rows E header_mapping [] P s = (None, P, s)"
| "process_rows E header_mapping (r # rs) P s =
     (case process_row E header_mapping r P s of
        (Some e, P', s') \<Rightarrow> (Some e, P', s')
      | (None, P', s') \<Rightarrow> process_rows E header_mapping rs P' s')"

definition batch_failed :: "processor \<Rightarrow> processor" where
  "batch_failed P =
     P\<lparr>stats := (stats P)\<lparr>failed_batches := failed_batches (stats P) + 1,
                           total_errors := total_errors (stats P) + 1\<rparr>\<rparr>"

definition batch_succeeded :: "processor \<Rightarrow> processor" where
  "batch_succeeded P =
     P\<lparr>stats := (stats P)\<lparr>successful_batches := successful_batches (stats P) + 1\<rparr>\<rparr>"

text \<open>
  Lines 87 to 101, one batch.  Modelled from the spec: \<open>db/session.py\<close> is not among the
  sources; the session manager gives a transactional unit of work, so the session starts
  from the stored products, a commit that returns stores the session's products, and an
  exception in the block rolls the whole batch back (the stored products stay as they
  were).  The counters and the processed codes are Python state and are not rolled back.
\<close>

definition process_batch ::
  "env \<Rightarrow> (pystr \<times> pystr) list \<Rightarrow> row list \<Rightarrow> processor \<Rightarrow> product list \<Rightarrow> processor \<times> product list" where
  "process_batch E header_mapping batch P db =
     (case process_rows E header_mapping batch P db of
        (Some e, P', s') \<Rightarrow> (batch_failed P', db)
      | (None, P', s') \<Rightarrow>
          (case commit_raises E s' of
             Some e \<Rightarrow> (batch_failed P', db)
           | None \<Rightarrow> (batch_succeeded P', s')))"

text \<open>\<open>range(start, stop, step)\<close> for a positive step.\<close>

function range_from :: "nat \<Rightarrow> nat \<Rightarrow> nat \<Rightarrow> nat list" where
  "range_from start stop step =
     (if 0 < step \<and> start < stop then start # range_from (start + step) stop step else [])"
  by pat_completeness auto
termination
  by (relation "measure (\<lambda>(start, stop, step). stop - start)") auto

text \<open>
  The slices \<open>df.iloc[start_idx:start_idx + batch_size]\<close> for \<open>start_idx\<close> in
  \<open>range(0, len(df), batch_size)\<close>; the range of a negative step is empty.
\<close>

definition batches :: "int \<Rightarrow> 'a list \<Rightarrow> 'a list list" where
  "batches bs rs =
     (if 0 < bs
      then map (\<lambda>start_idx. take (nat bs) (drop start_idx rs)) (range_from 0 (length rs) (nat bs))
      else [])"

fun run_batches ::
  "env \<Rightarrow> (pystr \<times> pystr) list \<Rightarrow> row list list \<Rightarrow> processor \<Rightarrow> product list \<Rightarrow> processor \<times> product list" where
  "run_batches E header_mapping [] P db = (P, db)"
| "run_batches E header_mapping (b # bs) P db =
     (case process_batch E header_mapping b P db of
        (P', db') \<Rightarrow> run_batches E header_mapping bs P' db')"

record result =
  success :: bool
  summary_stats :: stats
  summary_errors :: "(pystr \<Rightarrow> nat) \<times> error_record list"

text \<open>Lines 120 to 133: the \<open>except\<close> of \<open>process_file\<close>.\<close>

definition file_failed :: "exn \<Rightarrow> pystr \<Rightarrow> processor \<Rightarrow> product list \<Rightarrow> result \<times> processor \<times> product list" where
  "file_failed e file_path P db =
     (let P' = P\<lparr>error_tracker :=
                   add_error (lit ''file_processing'') (exn_str e) (FileCtx file_path) (error_tracker P)\<rparr>
      in (\<lparr>success = False, summary_stats = stats P',
           summary_errors = get_summary (error_tracker P')\<rparr>, P', db))"

text \<open>
  \<open>process_file\<close>, from the processor and the stored products to the result, the
  processor and the stored products after it.  \<open>total_batches\<close> (line 81) divides by the
  batch size before any batch runs.  Printing and logging are left out.
\<close>

definition process_file ::
  "env \<Rightarrow> pystr \<Rightarrow> processor \<Rightarrow> product list \<Rightarrow> result \<times> processor \<times> product list" where
  "process_file E file_path P db =
     (case initialize_system_products E db of
        Inl e \<Rightarrow> file_failed e file_path P db
      | Inr db1 \<Rightarrow>
          (case read_csv E file_path of
             Inl e \<Rightarrow> file_failed e file_path P db1
           | Inr df \<Rightarrow>
               (let header_mapping = header_mapping_of (columns df) in
                if \<not> all_fields_mapped header_mapping
                then file_failed (ValueError (lit ''Missing required columns in CSV file'')) file_path P db1
                else if batch_size P = 0
                  then file_failed (ZeroDivisionError (division_message E)) file_path P db1
                else
                  (case run_batches E header_mapping (batches (batch_size P) (rows df)) P db1 of
                     (P', db') \<Rightarrow>
                       (\<lparr>success = (failed_batches (stats P') = 0), summary_stats = stats P',
                         summary_errors = get_summary (error_tracker P')\<rparr>, P', db')))))"

text \<open>Line 19: the default of the constructor's \<open>batch_size\<close>.\<close>

definition default_batch_size :: int where
  "default_batch_size = 100"

text \<open>
  Modelled from the spec: \<open>processors/base.py\<close> is not among the sources.  A new
  processor has every counter at zero, no error recorded and no code processed.
\<close>

definition new_processor :: "int \<Rightarrow> processor" where
  "new_processor bs =
     \<lparr>batch_size = bs,
      stats = \<lparr>total_errors = 0, successful_batches = 0, failed_batches = 0, total_products = 0,
               created = 0, updated = 0, skipped = 0, validation_errors = 0\<rparr>,
      error_tracker = [], processed_codes = {}, tick = 0\<rparr>"


section \<open>Notions of the specification and sample data\<close>

text \<open>The character class \<open>[A-Za-z0-9._-]\<close> of the specification.\<close>

definition spec_code_char :: "nat \<Rightarrow> bool" where
  "spec_code_char c \<longleftrightarrow>
     (65 \<le> c \<and> c \<le> 90) \<or> (97 \<le> c \<and> c \<le> 122) \<or> (48 \<le> c \<and> c \<le> 57) \<or>
     c = 46 \<or> c = 95 \<or> c = 45"

text \<open>The structured records of the validation errors of one row.\<close>

definition validation_records :: "row \<Rightarrow> pystr list \<Rightarrow> error_record list" where
  "validation_records r verrs =
     map (\<lambda>e. \<lparr>category = lit ''validation'', message = e, err_ctx = RowCtx r\<rparr>) verrs"

text \<open>What identifies a stored product: its identifier and its code.\<close>

definition product_key :: "product \<Rightarrow> pystr \<times> pystr" where
  "product_key p = (product_id p, productCode p)"

text \<open>
  An environment for the examples: no exception from the database, a clock that starts at
  1000, identifiers \<open>u0\<close>, \<open>u1\<close>, ..., one system product, and a reader that knows three
  files (one of them without the description column).  The examples use ASCII and
  Latin-1 text only.
\<close>

definition demo_columns :: "pystr list" where
  "demo_columns = [lit ''Product/Service'', lit ''Product/Service Description'']"

definition demo_mapping :: "(pystr \<times> pystr) list" where
  "demo_mapping = header_mapping_of demo_columns"

definition mk_row :: "pystr \<Rightarrow> pystr \<Rightarrow> row" where
  "mk_row c d = [(lit ''Product/Service'', Text c), (lit ''Product/Service Description'', Text d)]"

definition demo_rows :: "row list" where
  "demo_rows =
     [mk_row (lit ''p1'') (lit ''Widget''),
      mk_row (lit ''p1'') (lit ''Deprecated widget''),
      mk_row (lit '' p2 '') (lit ''Gadget'')]"

definition demo_read_csv :: "pystr \<Rightarrow> exn + frame" where
  "demo_read_csv f =
     (if f = lit ''products.csv'' then Inr \<lparr>columns = demo_columns, rows = demo_rows\<rparr>
      else if f = lit ''one.csv''
        then Inr \<lparr>columns = demo_columns, rows = [mk_row (lit ''p1'') (lit ''Widget'')]\<rparr>
      else if f = lit ''nodesc.csv''
        then Inr \<lparr>columns = [lit ''Product/Service''], rows = [[(lit ''Product/Service'', Text (lit ''p1''))]]\<rparr>
      else Inl (Foreign (lit ''No such file'')))"

definition demo_env :: env where
  "demo_env =
     \<lparr>isalnum_ext = (\<lambda>c. False), upper_ext = (\<lambda>s. s), lower_ext = (\<lambda>s. s),
      is_system_product = (\<lambda>c. c = lit ''SHIPPING''),
      initialize_system_products = Inr,
      read_csv = demo_read_csv,
      query_raises = (\<lambda>s c. None),
      commit_raises = (\<lambda>s. None),
      utcnow = (\<lambda>n. 1000 + n),
      generate_uuid = (\<lambda>n. [117, 48 + n]),
      division_message = lit ''integer division or modulo by zero''\<rparr>"

text \<open>The same environment with a database whose commits fail.\<close>

definition failing_commit_env :: env where
  "failing_commit_env = demo_env\<lparr>commit_raises := (\<lambda>s. Some (Foreign (lit ''IntegrityError'')))\<rparr>"

definition stored_p1 :: product where
  "stored_p1 =
     \<lparr>product_id = lit ''old'', productCode = lit ''P1'', name = lit ''P1'',
      description = Some (lit ''Old text''), createdAt = 1, modifiedAt = 1\<rparr>"

text \<open>
  A row whose description field is empty in the file: \<open>pandas.read_csv\<close> reads an
  empty field as \<open>NaN\<close>.
\<close>

definition nan_row :: "pystr \<Rightarrow> row" where
  "nan_row c = [(lit ''Product/Service'', Text c), (lit ''Product/Service Description'', NaN)]"

text \<open>
  The rows of a batch handed to the row handler one after the other, from the first to
  the last, each starting from the processor and the session the one before left.
\<close>

definition handled_in_order ::
  "env \<Rightarrow> (pystr \<times> pystr) list \<Rightarrow> row list \<Rightarrow> processor \<times> product list \<Rightarrow> processor \<times> product list" where
  "handled_in_order E hm rs st = foldl (\<lambda>st r. snd (process_row E hm r (fst st) (snd st))) st rs"


text \<open>
  The rows that created or updated a product so far, and the relation between the
  processor before and after some rows that holds when every code newly processed
  accounts for at most one of them.
\<close>

definition upserts :: "processor \<Rightarrow> int" where
  "upserts P = created (stats P) + updated (stats P)"

definition at_most_once :: "processor \<Rightarrow> processor \<Rightarrow> bool" where
  "at_most_once P P' \<longleftrightarrow>
     processed_codes P \<subseteq> processed_codes P' \<and>
     finite (processed_codes P' - processed_codes P) \<and>
     upserts P' - upserts P \<le> int (card (processed_codes P' - processed_codes P))"

text \<open>
  The part of \<open>process_file\<close> before the first batch raises nothing: the system
  products are initialised, the file is read, every field has its column, and the batch
  size is not zero.
\<close>

definition file_level_ok :: "env \<Rightarrow> pystr \<Rightarrow> processor \<Rightarrow> product list \<Rightarrow> bool" where
  "file_level_ok E f P db \<longleftrightarrow>
     (case initialize_system_products E db of
        Inl e \<Rightarrow> False
      | Inr db1 \<Rightarrow>
          (case read_csv E f of
             Inl e \<Rightarrow> False
           | Inr df \<Rightarrow> all_fields_mapped (header_mapping_of (columns df)) \<and> batch_size P \<noteq> 0))"

section \<open>Validation of the product code\<close>

lemma lit_dash: "set (lit ''-_.'') = {45, 95, 46}"
  by (simp add: lit_def)

lemma ascii_alnum: "c < 128 \<Longrightarrow> (py_isalnum E c \<or> c \<in> set (lit ''-_.'')) = spec_code_char c"
  by (auto simp add: py_isalnum_def latin1_isalnum_def spec_code_char_def lit_dash)

lemma reject_tracker: "error_tracker (reject r verrs P) = error_tracker P @ validation_records r verrs"
proof -
  have "foldl (\<lambda>errs e. add_error (lit ''validation'') e (RowCtx r) errs) acc verrs
          = acc @ validation_records r verrs" for acc
    by (induction verrs arbitrary: acc) (simp_all add: validation_records_def add_error_def)
  then show ?thesis by (simp add: reject_def)
qed

lemma reject_codes: "processed_codes (reject r verrs P) = processed_codes P"
  by (simp add: reject_def)

lemma validate_code_iff:
  "validate_product_code E code = None \<longleftrightarrow>
     code \<noteq> [] \<and> length code \<le> 50 \<and> list_all (\<lambda>c. py_isalnum E c \<or> c \<in> set (lit ''-_.'')) code"
  by (auto simp add: validate_product_code_def)

lemma validate_data_code:
  "validate_product_code E code \<noteq> None \<Longrightarrow> validate_product_data E code d \<noteq> []"
  by (auto simp add: validate_product_data_def opt_list_def)

lemma process_row_rejects:
  "row_fields E hm r = Inr (code, d) \<Longrightarrow> validate_product_data E code d \<noteq> [] \<Longrightarrow>
   process_row E hm r P s = (None, reject r (validate_product_data E code d) P, s)"
  by (simp add: process_row_def row_try_def)

lemma demo_mapping_eq:
  "demo_mapping = [(lit ''product_code'', lit ''Product/Service''),
                   (lit ''description'', lit ''Product/Service Description'')]"
  by (simp add: demo_mapping_def header_mapping_of_def field_mappings_def demo_columns_def lit_def)

lemma demo_row_fields:
  "row_fields E demo_mapping (mk_row c d) = Inr (py_upper E (py_strip c), py_strip d)"
  by (simp add: demo_mapping_eq row_fields_def dict_get_def mk_row_def lit_def)

text \<open>
  C2, as the code has it.  The format check fails exactly when the code is empty, is
  longer than 50 characters, or has a character that is neither alphanumeric for Python
  (\<open>str.isalnum\<close>, which holds for letters and digits beyond ASCII too) nor one of
  \<open>-\<close>, \<open>_\<close>, \<open>.\<close>; for ASCII text that is the class \<open>[A-Za-z0-9._-]\<close> of the
  specification.  A row whose code fails the check is rejected: its validation errors
  are recorded, the session and the processed codes stay as they were.
\<close>

theorem validate_product_code_alnum:
  "(validate_product_code E code \<noteq> None \<longleftrightarrow>
      code = [] \<or> 50 < length code \<or> (\<exists>c\<in>set code. \<not> (py_isalnum E c \<or> c \<in> set (lit ''-_.''))))
   \<and> (is_ascii code \<longrightarrow>
        (validate_product_code E code \<noteq> None \<longleftrightarrow>
           code = [] \<or> 50 < length code \<or> (\<exists>c\<in>set code. \<not> spec_code_char c)))
   \<and> (row_fields E hm r = Inr (code, d) \<and> validate_product_code E code \<noteq> None \<longrightarrow>
        (\<exists>verrs. verrs \<noteq> [] \<and> process_row E hm r P s = (None, reject r verrs P, s)
           \<and> error_tracker (reject r verrs P) = error_tracker P @ validation_records r verrs
           \<and> processed_codes (reject r verrs P) = processed_codes P))"
proof (intro conjI impI)
  show a: "validate_product_code E code \<noteq> None \<longleftrightarrow>
      code = [] \<or> 50 < length code \<or> (\<exists>c\<in>set code. \<not> (py_isalnum E c \<or> c \<in> set (lit ''-_.'')))"
    using validate_code_iff [of E code] by (auto simp add: list_all_iff)
  show "validate_product_code E code \<noteq> None \<longleftrightarrow>
           code = [] \<or> 50 < length code \<or> (\<exists>c\<in>set code. \<not> spec_code_char c)" if "is_ascii code"
  proof -
    have "(py_isalnum E c \<or> c \<in> set (lit ''-_.'')) = spec_code_char c" if "c \<in> set code" for c
      using that \<open>is_ascii code\<close> by (intro ascii_alnum) (simp add: is_ascii_def list_all_iff)
    then show ?thesis unfolding a by blast
  qed
  show "\<exists>verrs. verrs \<noteq> [] \<and> process_row E hm r P s = (None, reject r verrs P, s)
           \<and> error_tracker (reject r verrs P) = error_tracker P @ validation_records r verrs
           \<and> processed_codes (reject r verrs P) = processed_codes P"
    if "row_fields E hm r = Inr (code, d) \<and> validate_product_code E code \<noteq> None"
    using that process_row_rejects [of E hm r code d P s] validate_data_code [of E code d]
    by (intro exI [of _ "validate_product_data E code d"]) (simp add: reject_tracker reject_codes)
qed

lemma demo_code_bad: "validate_product_code demo_env (lit ''A B'') \<noteq> None"
  by (simp add: validate_product_code_def py_isalnum_def latin1_isalnum_def lit_def)

lemma demo_upper_ab: "py_upper demo_env (py_strip (lit ''a b'')) = lit ''A B''"
  by (simp add: py_upper_def py_strip_def py_isspace_def is_ascii_def ascii_upper_def lit_def)

theorem validate_product_code_alnum_witness:
  "validate_product_code demo_env (lit ''A B'') \<noteq> None
   \<and> is_ascii (lit ''A B'') \<and> (\<exists>c\<in>set (lit ''A B''). \<not> spec_code_char c)
   \<and> row_fields demo_env demo_mapping (mk_row (lit ''a b'') (lit ''x'')) = Inr (lit ''A B'', lit ''x'')
   \<and> (\<exists>verrs. verrs \<noteq> [] \<and>
        process_row demo_env demo_mapping (mk_row (lit ''a b'') (lit ''x'')) (new_processor 100) []
          = (None, reject (mk_row (lit ''a b'') (lit ''x'')) verrs (new_processor 100), []))"
proof -
  have f: "row_fields demo_env demo_mapping (mk_row (lit ''a b'') (lit ''x'')) = Inr (lit ''A B'', lit ''x'')"
    by (simp add: demo_row_fields demo_upper_ab) (simp add: py_strip_def py_isspace_def lit_def)
  have a: "is_ascii (lit ''A B'')" by (simp add: is_ascii_def lit_def)
  have s: "\<exists>c\<in>set (lit ''A B''). \<not> spec_code_char c"
    by (simp add: spec_code_char_def lit_def)
  from validate_product_code_alnum [of demo_env "lit ''A B''" demo_mapping
      "mk_row (lit ''a b'') (lit ''x'')" "lit ''x''" "new_processor 100" "[]"]
  show ?thesis using f a s demo_code_bad by blast
qed

text \<open>
  The one-character code U+00C9 (code point 201, a Latin-1 capital letter) is outside \<open>[A-Za-z0-9._-]\<close>, yet it
  passes the format check and the whole validation.
\<close>

theorem validate_product_code_counterexample:
  "\<not> spec_code_char 201 \<and> validate_product_code demo_env [201] = None
   \<and> validate_product_data demo_env [201] (lit ''Cafe'') = []"
  by (simp add: validate_product_data_def validate_product_code_def py_isalnum_def
      latin1_isalnum_def opt_list_def validate_description_def startswith_def lit_def
      py_lower_def is_ascii_def ascii_lower_def spec_code_char_def)

section \<open>The business rules\<close>

lemma reject_explicit:
  "reject r verrs P =
     P\<lparr>stats := (stats P)\<lparr>validation_errors := validation_errors (stats P) + int (length verrs)\<rparr>,
       error_tracker := error_tracker P @ validation_records r verrs\<rparr>"
  using reject_tracker [of r verrs P] by (simp add: reject_def)

lemma py_lower_Nil: "py_lower E [] = []"
  by (simp add: py_lower_def is_ascii_def)

lemma startswith_Nil: "startswith [] p \<longleftrightarrow> p = []"
  by (auto simp add: startswith_def)

text \<open>
  C10.  Let \<open>code\<close> and \<open>d\<close> be the product code and the description the handler reads
  from the row (the code trimmed and uppercased, the description trimmed).  If \<open>code\<close>
  starts with \<open>TEST-\<close>, or \<open>d\<close> lowercased starts with \<open>deprecated\<close>, the row is
  rejected: the list of its validation errors is not empty and holds the message of the
  rule, each error is recorded under the category \<open>validation\<close> and counted, and nothing
  else changes, neither the session (no product is created or modified) nor the
  processed codes.  No assumption is made on the format of the code.
\<close>

theorem business_rules_reject:
  assumes "row_fields E hm r = Inr (code, d)"
    and "startswith code (lit ''TEST-'') \<or> startswith (py_lower E d) (lit ''deprecated'')"
  shows "\<exists>verrs. verrs = validate_product_data E code d \<and> verrs \<noteq> []
      \<and> (startswith code (lit ''TEST-'') \<longrightarrow> lit ''Test products not allowed in production'' \<in> set verrs)
      \<and> (startswith (py_lower E d) (lit ''deprecated'') \<longrightarrow>
            lit ''Deprecated products should not be imported'' \<in> set verrs)
      \<and> process_row E hm r P s =
           (None,
            P\<lparr>stats := (stats P)\<lparr>validation_errors := validation_errors (stats P) + int (length verrs)\<rparr>,
              error_tracker := error_tracker P @ validation_records r verrs\<rparr>,
            s)"
proof -
  have d: "d \<noteq> []" if "startswith (py_lower E d) (lit ''deprecated'')"
  proof
    assume "d = []"
    with that have "startswith [] (lit ''deprecated'')" by (simp add: py_lower_Nil)
    then show False by (simp add: startswith_Nil lit_def)
  qed
  have t: "lit ''Test products not allowed in production'' \<in> set (validate_product_data E code d)"
    if "startswith code (lit ''TEST-'')"
    using that by (simp add: validate_product_data_def)
  have p: "lit ''Deprecated products should not be imported'' \<in> set (validate_product_data E code d)"
    if "startswith (py_lower E d) (lit ''deprecated'')"
    using that d by (simp add: validate_product_data_def)
  from assms(2) t p have ne: "validate_product_data E code d \<noteq> []" by auto
  from process_row_rejects [OF assms(1) ne, of P s] t p ne show ?thesis
    by (simp add: reject_explicit)
qed

lemma demo_test_fields:
  "row_fields demo_env demo_mapping (mk_row (lit ''test-1'') (lit ''Widget'')) = Inr (lit ''TEST-1'', lit ''Widget'')"
  by (simp add: demo_row_fields)
     (simp add: py_upper_def py_strip_def py_isspace_def is_ascii_def ascii_upper_def lit_def)

theorem business_rules_reject_witness:
  "row_fields demo_env demo_mapping (mk_row (lit ''test-1'') (lit ''Widget'')) = Inr (lit ''TEST-1'', lit ''Widget'')
   \<and> validate_product_code demo_env (lit ''TEST-1'') = None
   \<and> startswith (lit ''TEST-1'') (lit ''TEST-'')
   \<and> process_row demo_env demo_mapping (mk_row (lit ''test-1'') (lit ''Widget'')) (new_processor 100) [stored_p1] =
        (None,
         (new_processor 100)\<lparr>stats := (stats (new_processor 100))\<lparr>validation_errors := 1\<rparr>,
           error_tracker := validation_records (mk_row (lit ''test-1'') (lit ''Widget''))
              [lit ''Test products not allowed in production'']\<rparr>,
         [stored_p1])"
proof -
  have s: "startswith (lit ''TEST-1'') (lit ''TEST-'')" by (simp add: startswith_def lit_def)
  have c: "validate_product_code demo_env (lit ''TEST-1'') = None"
    by (simp add: validate_product_code_def py_isalnum_def latin1_isalnum_def lit_def)
  have v: "validate_product_data demo_env (lit ''TEST-1'') (lit ''Widget'') = [lit ''Test products not allowed in production'']"
    by (simp add: validate_product_data_def c opt_list_def validate_description_def s)
       (simp add: startswith_def py_lower_def is_ascii_def ascii_lower_def lit_def)
  from business_rules_reject [OF demo_test_fields, of "new_processor 100" "[stored_p1]"] s v c demo_test_fields
  show ?thesis by (simp add: new_processor_def)
qed

section \<open>The row handler catches every failure\<close>



lemma process_row_returns: "fst (process_row E hm r P s) = None"
  by (simp add: process_row_def split: prod.splits option.splits)

lemma process_rows_returns: "fst (process_rows E hm rs P s) = None"
proof (induction rs arbitrary: P s)
  case Nil
  show ?case by simp
next
  case (Cons r rs)
  obtain P' s' where "process_row E hm r P s = (None, P', s')"
    using process_row_returns [of E hm r P s] by (cases "process_row E hm r P s") auto
  with Cons.IH show ?case by simp
qed

lemma process_rows_Cons:
  "process_rows E hm (r # rs) P s =
     process_rows E hm rs (fst (snd (process_row E hm r P s))) (snd (snd (process_row E hm r P s)))"
  using process_row_returns [of E hm r P s] by (cases "process_row E hm r P s") auto


section \<open>Rows that pass the checks\<close>

lemma row_try_passes:
  assumes "row_fields E hm r = Inr (code, d)" and "validate_product_data E code d = []"
    and "code \<notin> processed_codes P" and "\<not> is_system_product E code"
  shows "row_try E hm r P s = upsert E code d P s"
  using assms by (simp add: row_try_def)

lemma process_row_created:
  assumes "row_fields E hm r = Inr (code, d)" and "validate_product_data E code d = []"
    and "code \<notin> processed_codes P" and "\<not> is_system_product E code"
    and "query_raises E s code = None" and "query_first s code = None"
  shows "process_row E hm r P s =
    (None,
     P\<lparr>processed_codes := insert code (processed_codes P), tick := Suc (tick P),
       stats := (stats P)\<lparr>total_products := total_products (stats P) + 1,
                           created := created (stats P) + 1\<rparr>\<rparr>,
     s @ [\<lparr>product_id = generate_uuid E (tick P), productCode = code, name = code,
            description = Some d, createdAt = utcnow E (tick P), modifiedAt = utcnow E (tick P)\<rparr>])"
  using assms(5,6)
  by (simp add: process_row_def row_try_passes [OF assms(1-4)] upsert_def Let_def
      add_total_products_def add_created_def)

lemma process_row_updated:
  assumes "row_fields E hm r = Inr (code, d)" and "validate_product_data E code d = []"
    and "code \<notin> processed_codes P" and "\<not> is_system_product E code"
    and "query_raises E s code = None" and "query_first s code = Some p"
    and "d \<noteq> []" and "Some d \<noteq> description p"
  shows "process_row E hm r P s =
    (None,
     P\<lparr>processed_codes := insert code (processed_codes P), tick := Suc (tick P),
       stats := (stats P)\<lparr>total_products := total_products (stats P) + 1,
                           updated := updated (stats P) + 1\<rparr>\<rparr>,
     update_first (\<lambda>q. productCode q = code)
       (\<lambda>q. q\<lparr>description := Some d, modifiedAt := utcnow E (tick P)\<rparr>) s)"
  using assms(5-8)
  by (simp add: process_row_def row_try_passes [OF assms(1-4)] upsert_def Let_def
      add_total_products_def add_updated_def)

lemma process_row_unchanged:
  assumes "row_fields E hm r = Inr (code, d)" and "validate_product_data E code d = []"
    and "code \<notin> processed_codes P" and "\<not> is_system_product E code"
    and "query_raises E s code = None" and "query_first s code = Some p"
    and "d = [] \<or> Some d = description p"
  shows "process_row E hm r P s =
    (None,
     P\<lparr>processed_codes := insert code (processed_codes P), tick := Suc (tick P),
       stats := (stats P)\<lparr>total_products := total_products (stats P) + 1,
                           skipped := skipped (stats P) + 1\<rparr>\<rparr>,
     s)"
  using assms(5-7)
  by (auto simp add: process_row_def row_try_passes [OF assms(1-4)] upsert_def Let_def
      add_total_products_def add_skipped_def)

lemma query_first_split:
  assumes "query_first s code = Some p"
  shows "\<exists>xs ys. s = xs @ p # ys \<and> productCode p = code \<and> list_all (\<lambda>q. productCode q \<noteq> code) xs
           \<and> update_first (\<lambda>q. productCode q = code) f s = xs @ f p # ys"
  using assms
proof (induction s)
  case Nil
  then show ?case by (simp add: query_first_def)
next
  case (Cons x s)
  show ?case
  proof (cases "productCode x = code")
    case True
    with Cons.prems have "x = p" by (simp add: query_first_def)
    with True show ?thesis by (intro exI [of _ "[]"] exI [of _ s]) simp
  next
    case False
    with Cons.prems have "query_first s code = Some p" by (simp add: query_first_def)
    from Cons.IH [OF this] obtain xs ys where
      "s = xs @ p # ys" "productCode p = code" "list_all (\<lambda>q. productCode q \<noteq> code) xs"
      "update_first (\<lambda>q. productCode q = code) f s = xs @ f p # ys" by blast
    with False show ?thesis by (intro exI [of _ "x # xs"] exI [of _ ys]) simp
  qed
qed

lemma update_first_keys:
  "(\<And>q. product_key (f q) = product_key q) \<Longrightarrow> map product_key (update_first Q f s) = map product_key s"
  by (induction s) simp_all

lemma upsert_keys:
  "prefix (map product_key s) (map product_key (snd (snd (upsert E code d P s))))"
  by (simp add: upsert_def Let_def update_first_keys product_key_def split: option.splits)

lemma process_row_keys:
  "prefix (map product_key s) (map product_key (snd (snd (process_row E hm r P s))))"
proof -
  have "prefix (map product_key s) (map product_key (snd (snd (row_try E hm r P s))))"
    using upsert_keys [of s E _ _ P]
    by (simp add: row_try_def Let_def split: sum.splits prod.splits)
  then show ?thesis
    by (auto simp add: process_row_def split: prod.splits option.splits)
qed

lemma process_rows_keys:
  "prefix (map product_key s) (map product_key (snd (snd (process_rows E hm rs P s))))"
proof (induction rs arbitrary: P s)
  case Nil
  show ?case by simp
next
  case (Cons r rs)
  show ?case
    unfolding process_rows_Cons
    using process_row_keys [of s E hm r P] Cons.IH prefix_order.order_trans by blast
qed

lemma process_batch_keys:
  "prefix (map product_key db) (map product_key (snd (process_batch E hm b P db)))"
  using process_rows_keys [of db E hm b P]
  by (auto simp add: process_batch_def split: prod.splits option.splits)

lemma run_batches_keys:
  "prefix (map product_key db) (map product_key (snd (run_batches E hm bs P db)))"
proof (induction bs arbitrary: P db)
  case Nil
  show ?case by simp
next
  case (Cons b bs)
  obtain P' db' where b: "process_batch E hm b P db = (P', db')" by (cases "process_batch E hm b P db")
  with process_batch_keys [of db E hm b P] have "prefix (map product_key db) (map product_key db')" by simp
  with Cons.IH [of db' P'] b show ?case
    using prefix_order.order_trans by fastforce
qed

section \<open>Evaluation of the sample rows\<close>

lemma fields_p1:
  "row_fields E demo_mapping (mk_row (lit ''p1'') d) = Inr (lit ''P1'', py_strip d)"
  by (simp add: demo_row_fields)
     (simp add: py_upper_def py_strip_def py_isspace_def is_ascii_def ascii_upper_def lit_def)

lemma fields_p2:
  "row_fields E demo_mapping (mk_row (lit '' p2 '') d) = Inr (lit ''P2'', py_strip d)"
  by (simp add: demo_row_fields)
     (simp add: py_upper_def py_strip_def py_isspace_def is_ascii_def ascii_upper_def lit_def)

lemma strip_widget: "py_strip (lit ''Widget'') = lit ''Widget''"
  and strip_gadget: "py_strip (lit ''Gadget'') = lit ''Gadget''"
  and strip_old: "py_strip (lit ''Old text'') = lit ''Old text''"
  and strip_deprecated: "py_strip (lit ''Deprecated widget'') = lit ''Deprecated widget''"
  by (simp_all add: py_strip_def py_isspace_def lit_def)

lemma code_ok_p1: "validate_product_code E (lit ''P1'') = None"
  and code_ok_p2: "validate_product_code E (lit ''P2'') = None"
  by (simp_all add: validate_product_code_def py_isalnum_def latin1_isalnum_def lit_def)

lemma valid_widget: "validate_product_data E (lit ''P1'') (lit ''Widget'') = []"
  by (simp add: validate_product_data_def code_ok_p1 opt_list_def validate_description_def)
     (simp add: startswith_def py_lower_def is_ascii_def ascii_lower_def lit_def)

lemma valid_old: "validate_product_data E (lit ''P1'') (lit ''Old text'') = []"
  by (simp add: validate_product_data_def code_ok_p1 opt_list_def validate_description_def)
     (simp add: startswith_def py_lower_def is_ascii_def ascii_lower_def lit_def)

lemma valid_gadget: "validate_product_data E (lit ''P2'') (lit ''Gadget'') = []"
  by (simp add: validate_product_data_def code_ok_p2 opt_list_def validate_description_def)
     (simp add: startswith_def py_lower_def is_ascii_def ascii_lower_def lit_def)

lemma invalid_deprecated:
  "validate_product_data E (lit ''P1'') (lit ''Deprecated widget'') = [lit ''Deprecated products should not be imported'']"
  by (simp add: validate_product_data_def code_ok_p1 opt_list_def validate_description_def)
     (simp add: startswith_def py_lower_def is_ascii_def ascii_lower_def lit_def)

lemma not_system: "\<not> is_system_product demo_env (lit ''P1'')" "\<not> is_system_product demo_env (lit ''P2'')"
  by (simp_all add: demo_env_def lit_def)

lemma demo_no_raise: "query_raises demo_env s c = None" "commit_raises demo_env s = None"
  by (simp_all add: demo_env_def)


section \<open>Failures of a row\<close>



section \<open>Existing and new products\<close>

lemma row_fields_normalised:
  assumes "row_fields E hm r = Inr (code, d)"
  shows "\<exists>ccol cc dcol dc.
           map_of hm (lit ''product_code'') = Some ccol \<and> map_of r ccol = Some cc
         \<and> map_of hm (lit ''description'') = Some dcol \<and> map_of r dcol = Some dc
         \<and> code = py_upper E (py_strip (py_str cc)) \<and> d = py_strip (py_str dc)"
  using assms
  by (auto simp add: row_fields_def dict_get_def split: option.splits)

text \<open>
  Take a row that the handler processes as a product: it passed validation, and its
  code (trimmed and uppercased) has not been processed in this run and is not a system
  product.  Let the lookup of the code return the stored product \<open>p\<close>.  If the row's
  description is not empty and differs from the stored one, the session afterwards is the
  session before with only \<open>description\<close> and \<open>modifiedAt\<close> of \<open>p\<close> changed, and the
  row is counted as updated; otherwise the session is unchanged and the row is counted
  as skipped.  No product is deleted: for any row, and for any run of batches, the
  identifiers and codes of the products before are an initial segment of those after.
\<close>

lemma existing_product_updated_or_skipped:
  assumes "row_fields E hm r = Inr (code, d)" and "validate_product_data E code d = []"
    and "code \<notin> processed_codes P" and "\<not> is_system_product E code"
    and "query_raises E s code = None" and "query_first s code = Some p"
  shows "(d \<noteq> [] \<and> Some d \<noteq> description p \<longrightarrow>
           (\<exists>xs ys. s = xs @ p # ys \<and> productCode p = code
              \<and> list_all (\<lambda>q. productCode q \<noteq> code) xs
              \<and> process_row E hm r P s =
                  (None,
                   P\<lparr>processed_codes := insert code (processed_codes P), tick := Suc (tick P),
                     stats := (stats P)\<lparr>total_products := total_products (stats P) + 1,
                                         updated := updated (stats P) + 1\<rparr>\<rparr>,
                   xs @ p\<lparr>description := Some d, modifiedAt := utcnow E (tick P)\<rparr> # ys)))
       \<and> (d = [] \<or> Some d = description p \<longrightarrow>
            process_row E hm r P s =
              (None,
               P\<lparr>processed_codes := insert code (processed_codes P), tick := Suc (tick P),
                 stats := (stats P)\<lparr>total_products := total_products (stats P) + 1,
                                     skipped := skipped (stats P) + 1\<rparr>\<rparr>,
               s))
       \<and> prefix (map product_key s0) (map product_key (snd (snd (process_row E hm0 r0 P0 s0))))
       \<and> prefix (map product_key db0) (map product_key (snd (run_batches E hm0 bs0 P0 db0)))"
proof (intro conjI impI)
  show "\<exists>xs ys. s = xs @ p # ys \<and> productCode p = code
              \<and> list_all (\<lambda>q. productCode q \<noteq> code) xs
              \<and> process_row E hm r P s =
                  (None,
                   P\<lparr>processed_codes := insert code (processed_codes P), tick := Suc (tick P),
                     stats := (stats P)\<lparr>total_products := total_products (stats P) + 1,
                                         updated := updated (stats P) + 1\<rparr>\<rparr>,
                   xs @ p\<lparr>description := Some d, modifiedAt := utcnow E (tick P)\<rparr> # ys)"
    if c: "d \<noteq> [] \<and> Some d \<noteq> description p"
  proof -
    from query_first_split [OF assms(6), of "\<lambda>q. q\<lparr>description := Some d, modifiedAt := utcnow E (tick P)\<rparr>"]
    obtain xs ys where x: "s = xs @ p # ys" "productCode p = code"
      "list_all (\<lambda>q. productCode q \<noteq> code) xs"
      "update_first (\<lambda>q. productCode q = code)
         (\<lambda>q. q\<lparr>description := Some d, modifiedAt := utcnow E (tick P)\<rparr>) s
       = xs @ p\<lparr>description := Some d, modifiedAt := utcnow E (tick P)\<rparr> # ys"
      by blast
    from c have "d \<noteq> []" "Some d \<noteq> description p" by simp_all
    from process_row_updated [OF assms this] x show ?thesis by metis
  qed
  show "process_row E hm r P s =
              (None,
               P\<lparr>processed_codes := insert code (processed_codes P), tick := Suc (tick P),
                 stats := (stats P)\<lparr>total_products := total_products (stats P) + 1,
                                     skipped := skipped (stats P) + 1\<rparr>\<rparr>,
               s)" if "d = [] \<or> Some d = description p"
    by (rule process_row_unchanged [OF assms that])
  show "prefix (map product_key s0) (map product_key (snd (snd (process_row E hm0 r0 P0 s0))))"
    by (rule process_row_keys)
  show "prefix (map product_key db0) (map product_key (snd (run_batches E hm0 bs0 P0 db0)))"
    by (rule run_batches_keys)
qed

lemma query_p1: "query_first [stored_p1] (lit ''P1'') = Some stored_p1"
  and query_p2: "query_first [stored_p1] (lit ''P2'') = None"
  by (simp_all add: query_first_def stored_p1_def lit_def)

lemma existing_product_updated_or_skipped_example:
  "process_row demo_env demo_mapping (mk_row (lit ''p1'') (lit ''Widget'')) (new_processor 100) [stored_p1] =
     (None,
      (new_processor 100)\<lparr>processed_codes := {lit ''P1''}, tick := 1,
         stats := (stats (new_processor 100))\<lparr>total_products := 1, updated := 1\<rparr>\<rparr>,
      [stored_p1\<lparr>description := Some (lit ''Widget''), modifiedAt := 1000\<rparr>])
   \<and> process_row demo_env demo_mapping (mk_row (lit ''p1'') (lit ''Old text'')) (new_processor 100) [stored_p1] =
     (None,
      (new_processor 100)\<lparr>processed_codes := {lit ''P1''}, tick := 1,
         stats := (stats (new_processor 100))\<lparr>total_products := 1, skipped := 1\<rparr>\<rparr>,
      [stored_p1])"
proof -
  have n: "lit ''P1'' \<notin> processed_codes (new_processor 100)" by (simp add: new_processor_def)
  have f1: "row_fields demo_env demo_mapping (mk_row (lit ''p1'') (lit ''Widget'')) = Inr (lit ''P1'', lit ''Widget'')"
    by (simp add: fields_p1 strip_widget)
  have f2: "row_fields demo_env demo_mapping (mk_row (lit ''p1'') (lit ''Old text'')) = Inr (lit ''P1'', lit ''Old text'')"
    by (simp add: fields_p1 strip_old)
  have d1: "lit ''Widget'' \<noteq> [] \<and> Some (lit ''Widget'') \<noteq> description stored_p1"
    by (simp add: stored_p1_def lit_def)
  have d2: "lit ''Old text'' = [] \<or> Some (lit ''Old text'') = description stored_p1"
    by (simp add: stored_p1_def)
  note a = existing_product_updated_or_skipped [OF f1 valid_widget n not_system(1) demo_no_raise(1) query_p1,
      of "[]" demo_mapping "[]" "new_processor 100" "[]" "[]", THEN conjunct1, rule_format, OF d1]
  note b = existing_product_updated_or_skipped [OF f2 valid_old n not_system(1) demo_no_raise(1) query_p1,
      of "[]" demo_mapping "[]" "new_processor 100" "[]" "[]", THEN conjunct2, THEN conjunct1, rule_format, OF d2]
  from a obtain xs ys where x: "[stored_p1] = xs @ stored_p1 # ys"
     and y: "process_row demo_env demo_mapping (mk_row (lit ''p1'') (lit ''Widget'')) (new_processor 100) [stored_p1] =
       (None,
        (new_processor 100)\<lparr>processed_codes := insert (lit ''P1'') (processed_codes (new_processor 100)),
           tick := Suc (tick (new_processor 100)),
           stats := (stats (new_processor 100))\<lparr>total_products := total_products (stats (new_processor 100)) + 1,
                                     updated := updated (stats (new_processor 100)) + 1\<rparr>\<rparr>,
        xs @ stored_p1\<lparr>description := Some (lit ''Widget''), modifiedAt := utcnow demo_env (tick (new_processor 100))\<rparr> # ys)"
    by blast
  from x have "xs = [] \<and> ys = []" by (cases xs) simp_all
  with y b show ?thesis by (simp add: new_processor_def demo_env_def)
qed

text \<open>
  Take a row that the handler processes as a product (as above) and let the lookup
  of its code find nothing.  Then one product is added to the session: its code is the
  text of the row's code cell, trimmed and then uppercased, its name is that code, its
  description is the description the handler read from the row (the text of the cell,
  trimmed), and both its timestamps are the reading of the clock taken for this row.
  The row is counted as created.
\<close>

lemma new_product_created:
  assumes "row_fields E hm r = Inr (code, d)" and "validate_product_data E code d = []"
    and "code \<notin> processed_codes P" and "\<not> is_system_product E code"
    and "query_raises E s code = None" and "query_first s code = None"
  shows "(\<exists>ccol cc dcol dc.
           map_of hm (lit ''product_code'') = Some ccol \<and> map_of r ccol = Some cc
         \<and> map_of hm (lit ''description'') = Some dcol \<and> map_of r dcol = Some dc
         \<and> code = py_upper E (py_strip (py_str cc)) \<and> d = py_strip (py_str dc))
       \<and> process_row E hm r P s =
          (None,
           P\<lparr>processed_codes := insert code (processed_codes P), tick := Suc (tick P),
             stats := (stats P)\<lparr>total_products := total_products (stats P) + 1,
                                 created := created (stats P) + 1\<rparr>\<rparr>,
           s @ [\<lparr>product_id = generate_uuid E (tick P), productCode = code, name = code,
                  description = Some d, createdAt = utcnow E (tick P), modifiedAt = utcnow E (tick P)\<rparr>])"
  using row_fields_normalised [OF assms(1)] process_row_created [OF assms] by blast

lemma new_product_created_example:
  "process_row demo_env demo_mapping (mk_row (lit '' p2 '') (lit ''Gadget'')) (new_processor 100) [stored_p1] =
     (None,
      (new_processor 100)\<lparr>processed_codes := {lit ''P2''}, tick := 1,
         stats := (stats (new_processor 100))\<lparr>total_products := 1, created := 1\<rparr>\<rparr>,
      [stored_p1,
       \<lparr>product_id = lit ''u0'', productCode = lit ''P2'', name = lit ''P2'',
        description = Some (lit ''Gadget''), createdAt = 1000, modifiedAt = 1000\<rparr>])"
proof -
  have n: "lit ''P2'' \<notin> processed_codes (new_processor 100)" by (simp add: new_processor_def)
  have f: "row_fields demo_env demo_mapping (mk_row (lit '' p2 '') (lit ''Gadget'')) = Inr (lit ''P2'', lit ''Gadget'')"
    by (simp add: fields_p2 strip_gadget)
  from new_product_created [OF f valid_gadget n not_system(2) demo_no_raise(1) query_p2]
  show ?thesis by (simp add: new_processor_def demo_env_def lit_def)
qed

section \<open>Rows with an empty description field\<close>

lemma strip_nan: "py_strip (lit ''nan'') = lit ''nan''"
  by (simp add: py_strip_def py_isspace_def lit_def)

lemma nan_row_fields:
  "row_fields E demo_mapping (nan_row c) = Inr (py_upper E (py_strip c), lit ''nan'')"
  by (simp add: demo_mapping_eq row_fields_def dict_get_def nan_row_def strip_nan)
     (simp add: lit_def)

lemma nan_fields_p1: "row_fields E demo_mapping (nan_row (lit ''p1'')) = Inr (lit ''P1'', lit ''nan'')"
  and nan_fields_p2: "row_fields E demo_mapping (nan_row (lit '' p2 '')) = Inr (lit ''P2'', lit ''nan'')"
  by (simp_all add: nan_row_fields)
     (simp_all add: py_upper_def py_strip_def py_isspace_def is_ascii_def ascii_upper_def lit_def)

lemma valid_nan_p1: "validate_product_data E (lit ''P1'') (lit ''nan'') = []"
  by (simp add: validate_product_data_def code_ok_p1 opt_list_def validate_description_def)
     (simp add: startswith_def py_lower_def is_ascii_def ascii_lower_def lit_def)

lemma valid_nan_p2: "validate_product_data E (lit ''P2'') (lit ''nan'') = []"
  by (simp add: validate_product_data_def code_ok_p2 opt_list_def validate_description_def)
     (simp add: startswith_def py_lower_def is_ascii_def ascii_lower_def lit_def)

text \<open>
  C4 at a failing input.  The product \<open>P1\<close> is stored with the description
  \<open>Old text\<close>; the row has the code \<open>p1\<close> and an empty description field, which
  \<open>pandas.read_csv\<close> reads as \<open>NaN\<close>.  \<open>str(nan)\<close> is the text \<open>nan\<close>, which is not
  empty and differs from the stored description: the description of the product is
  overwritten with \<open>nan\<close>, its \<open>modifiedAt\<close> is set, and the row is counted as updated,
  not as skipped.
\<close>

theorem nan_description_overwrites:
  "process_row demo_env demo_mapping (nan_row (lit ''p1'')) (new_processor 100) [stored_p1] =
     (None,
      (new_processor 100)\<lparr>processed_codes := {lit ''P1''}, tick := 1,
         stats := (stats (new_processor 100))\<lparr>total_products := 1, updated := 1\<rparr>\<rparr>,
      [stored_p1\<lparr>description := Some (lit ''nan''), modifiedAt := 1000\<rparr>])"
proof -
  have n: "lit ''P1'' \<notin> processed_codes (new_processor 100)" by (simp add: new_processor_def)
  have d: "lit ''nan'' \<noteq> []" "Some (lit ''nan'') \<noteq> description stored_p1"
    by (simp_all add: stored_p1_def lit_def)
  have u: "update_first (\<lambda>q. productCode q = lit ''P1'') f [stored_p1] = [f stored_p1]" for f
    by (simp add: stored_p1_def)
  note r = process_row_updated [OF nan_fields_p1 valid_nan_p1 n not_system(1) demo_no_raise(1) query_p1 d,
      unfolded u]
  show ?thesis unfolding r by (simp add: new_processor_def demo_env_def)
qed

text \<open>
  C5 at a failing input.  No product \<open>P2\<close> is stored; the row has the code \<open>p2\<close>
  (with blanks around it) and an empty description field, read as \<open>NaN\<close>.  The product
  created has the description \<open>nan\<close>, which the row did not give.
\<close>

theorem nan_description_created:
  "process_row demo_env demo_mapping (nan_row (lit '' p2 '')) (new_processor 100) [stored_p1] =
     (None,
      (new_processor 100)\<lparr>processed_codes := {lit ''P2''}, tick := 1,
         stats := (stats (new_processor 100))\<lparr>total_products := 1, created := 1\<rparr>\<rparr>,
      [stored_p1,
       \<lparr>product_id = lit ''u0'', productCode = lit ''P2'', name = lit ''P2'',
        description = Some (lit ''nan''), createdAt = 1000, modifiedAt = 1000\<rparr>])"
proof -
  have n: "lit ''P2'' \<notin> processed_codes (new_processor 100)" by (simp add: new_processor_def)
  from process_row_created [OF nan_fields_p2 valid_nan_p2 n not_system(2) demo_no_raise(1) query_p2]
  show ?thesis by (simp add: new_processor_def demo_env_def lit_def)
qed

section \<open>Codes processed at most once\<close>

lemma at_most_once_refl: "at_most_once P P"
  by (simp add: at_most_once_def)

lemma at_most_once_trans:
  assumes "at_most_once P Q" and "at_most_once Q R"
  shows "at_most_once P R"
proof -
  let ?A = "processed_codes P" and ?B = "processed_codes Q" and ?C = "processed_codes R"
  from assms have s: "?A \<subseteq> ?B" "?B \<subseteq> ?C" and f: "finite (?B - ?A)" "finite (?C - ?B)"
    by (simp_all add: at_most_once_def)
  from s have u: "?C - ?A = (?C - ?B) \<union> (?B - ?A)" and d: "(?C - ?B) \<inter> (?B - ?A) = {}" by auto
  from f d have c: "card (?C - ?A) = card (?C - ?B) + card (?B - ?A)"
    unfolding u by (simp add: card_Un_disjoint)
  from assms have "upserts Q - upserts P \<le> int (card (?B - ?A))"
    "upserts R - upserts Q \<le> int (card (?C - ?B))" by (simp_all add: at_most_once_def)
  with c have "upserts R - upserts P \<le> int (card (?C - ?A))" by simp
  moreover from f have "finite (?C - ?A)" unfolding u by simp
  moreover from s have "?A \<subseteq> ?C" by auto
  ultimately show ?thesis by (simp add: at_most_once_def)
qed

lemma at_most_once_same:
  "processed_codes P' = processed_codes P \<Longrightarrow> upserts P' = upserts P \<Longrightarrow> at_most_once P P'"
  by (simp add: at_most_once_def)

lemma at_most_once_new:
  "code \<notin> processed_codes P \<Longrightarrow> processed_codes P' = insert code (processed_codes P) \<Longrightarrow>
   upserts P' \<le> upserts P + 1 \<Longrightarrow> at_most_once P P'"
proof -
  assume a: "code \<notin> processed_codes P" "processed_codes P' = insert code (processed_codes P)"
    "upserts P' \<le> upserts P + 1"
  then have "processed_codes P' - processed_codes P = {code}" by auto
  with a show ?thesis by (auto simp add: at_most_once_def)
qed

lemma upsert_once:
  "code \<notin> processed_codes P \<Longrightarrow> at_most_once P (fst (snd (upsert E code d P s)))"
  by (rule at_most_once_new [of code])
     (auto simp add: upsert_def Let_def upserts_def add_total_products_def add_updated_def
        add_skipped_def add_created_def split: option.splits)

lemma row_try_once: "at_most_once P (fst (snd (row_try E hm r P s)))"
  by (auto simp add: row_try_def Let_def upsert_once at_most_once_refl
      intro!: at_most_once_same
      simp add: reject_def add_skipped_def upserts_def split: sum.splits prod.splits)

lemma process_row_once: "at_most_once P (fst (snd (process_row E hm r P s)))"
proof -
  obtain x P' s' where r: "row_try E hm r P s = (x, P', s')" by (cases "row_try E hm r P s")
  with row_try_once [of P E hm r s] have a: "at_most_once P P'" by simp
  have "at_most_once P' (fst (snd (process_row E hm r P s)))"
    using r by (cases x) (auto simp add: process_row_def add_total_errors_def upserts_def
      intro!: at_most_once_same at_most_once_refl)
  with a show ?thesis by (rule at_most_once_trans)
qed

lemma process_rows_once: "at_most_once P (fst (snd (process_rows E hm rs P s)))"
proof (induction rs arbitrary: P s)
  case Nil
  show ?case by (simp add: at_most_once_refl)
next
  case (Cons r rs)
  show ?case
    unfolding process_rows_Cons
    using process_row_once Cons.IH by (rule at_most_once_trans)
qed

lemma process_batch_once: "at_most_once P (fst (process_batch E hm b P db))"
proof -
  obtain x P' s' where r: "process_rows E hm b P db = (x, P', s')" by (cases "process_rows E hm b P db")
  with process_rows_once [of P E hm b db] have a: "at_most_once P P'" by simp
  have "at_most_once P' (fst (process_batch E hm b P db))"
    using r by (auto simp add: process_batch_def batch_failed_def batch_succeeded_def upserts_def
      intro!: at_most_once_same split: option.splits)
  with a show ?thesis by (rule at_most_once_trans)
qed

lemma run_batches_once: "at_most_once P (fst (run_batches E hm bs P db))"
proof (induction bs arbitrary: P db)
  case Nil
  show ?case by (simp add: at_most_once_refl)
next
  case (Cons b bs)
  obtain P' db' where b: "process_batch E hm b P db = (P', db')" by (cases "process_batch E hm b P db")
  with process_batch_once [of P E hm b db] have "at_most_once P P'" by simp
  moreover from b have "fst (run_batches E hm (b # bs) P db) = fst (run_batches E hm bs P' db')" by simp
  ultimately show ?case using Cons.IH [of P' db'] by (auto intro: at_most_once_trans)
qed

lemma file_failed_once: "at_most_once P (fst (snd (file_failed e f P db)))"
  by (simp add: file_failed_def Let_def upserts_def at_most_once_same)

lemma process_file_once: "at_most_once P (fst (snd (process_file E f P db)))"
proof -
  have "at_most_once P P'" if "run_batches E hm bs P db1 = (P', db')" for hm bs db1 P' db'
    using run_batches_once [of P E hm bs db1] that by simp
  then show ?thesis
    by (auto simp add: process_file_def Let_def file_failed_once split: sum.splits prod.splits)
qed

lemma process_row_seen:
  assumes "row_fields E hm r = Inr (code, d)" and "code \<in> processed_codes P"
    and "validate_product_data E code d = []"
  shows "process_row E hm r P s = (None, P\<lparr>stats := (stats P)\<lparr>skipped := skipped (stats P) + 1\<rparr>\<rparr>, s)"
  using assms by (simp add: process_row_def row_try_def add_skipped_def)

text \<open>
  C9, as the code has it.  A row whose code (trimmed and uppercased) is already in the
  processed set makes no lookup and changes neither the session nor the processed set:
  if it passes validation it is counted as skipped, whatever its description, and if it
  fails validation (on its description, say) it is rejected and counted as validation
  errors instead.  A row rejected by validation never adds its code to the processed
  set.  Over one row, and over one whole run of \<open>process_file\<close>, the processed set only
  grows, and the rows counted as created or updated are at most as many as the codes
  newly processed: each code accounts for at most one create or update.
\<close>

theorem processed_code_once:
  "(row_fields E hm r = Inr (code, d) \<and> code \<in> processed_codes P \<and> validate_product_data E code d = [] \<longrightarrow>
      process_row E hm r P s = (None, P\<lparr>stats := (stats P)\<lparr>skipped := skipped (stats P) + 1\<rparr>\<rparr>, s))
   \<and> (row_fields E hm r = Inr (code, d) \<and> validate_product_data E code d \<noteq> [] \<longrightarrow>
        process_row E hm r P s =
          (None,
           P\<lparr>stats := (stats P)\<lparr>validation_errors :=
                 validation_errors (stats P) + int (length (validate_product_data E code d))\<rparr>,
             error_tracker := error_tracker P @ validation_records r (validate_product_data E code d)\<rparr>,
           s))
   \<and> at_most_once P (fst (snd (process_row E hm r P s)))
   \<and> at_most_once P (fst (snd (process_file E f P db)))"
proof (intro conjI impI)
  show "process_row E hm r P s = (None, P\<lparr>stats := (stats P)\<lparr>skipped := skipped (stats P) + 1\<rparr>\<rparr>, s)"
    if "row_fields E hm r = Inr (code, d) \<and> code \<in> processed_codes P \<and> validate_product_data E code d = []"
    using that process_row_seen [of E hm r code d P s] by simp
  show "process_row E hm r P s =
          (None,
           P\<lparr>stats := (stats P)\<lparr>validation_errors :=
                 validation_errors (stats P) + int (length (validate_product_data E code d))\<rparr>,
             error_tracker := error_tracker P @ validation_records r (validate_product_data E code d)\<rparr>,
           s)"
    if "row_fields E hm r = Inr (code, d) \<and> validate_product_data E code d \<noteq> []"
    using that process_row_rejects [of E hm r code d P s] by (simp add: reject_explicit)
  show "at_most_once P (fst (snd (process_row E hm r P s)))" by (rule process_row_once)
  show "at_most_once P (fst (snd (process_file E f P db)))" by (rule process_file_once)
qed

theorem processed_code_once_witness:
  "lit ''P1'' \<in> processed_codes ((new_processor 100)\<lparr>processed_codes := {lit ''P1''}\<rparr>)
   \<and> description stored_p1 \<noteq> Some (lit ''Widget'')
   \<and> process_row demo_env demo_mapping (mk_row (lit ''p1'') (lit ''Widget''))
        ((new_processor 100)\<lparr>processed_codes := {lit ''P1''}\<rparr>) [stored_p1] =
       (None,
        (new_processor 100)\<lparr>processed_codes := {lit ''P1''},
           stats := (stats (new_processor 100))\<lparr>skipped := 1\<rparr>\<rparr>,
        [stored_p1])
   \<and> process_row demo_env demo_mapping (mk_row (lit ''p1'') (lit ''Deprecated widget''))
        ((new_processor 100)\<lparr>processed_codes := {lit ''P1''}\<rparr>) [stored_p1] =
       (None,
        (new_processor 100)\<lparr>processed_codes := {lit ''P1''},
           stats := (stats (new_processor 100))\<lparr>validation_errors := 1\<rparr>,
           error_tracker := validation_records (mk_row (lit ''p1'') (lit ''Deprecated widget''))
              [lit ''Deprecated products should not be imported'']\<rparr>,
        [stored_p1])
   \<and> at_most_once (new_processor 100)
        (fst (snd (process_file demo_env (lit ''products.csv'') (new_processor 100) [])))"
proof -
  let ?P = "(new_processor 100)\<lparr>processed_codes := {lit ''P1''}\<rparr>"
  have f1: "row_fields demo_env demo_mapping (mk_row (lit ''p1'') (lit ''Widget'')) = Inr (lit ''P1'', lit ''Widget'')"
    by (simp add: fields_p1 strip_widget)
  have f2: "row_fields demo_env demo_mapping (mk_row (lit ''p1'') (lit ''Deprecated widget''))
        = Inr (lit ''P1'', lit ''Deprecated widget'')"
    by (simp add: fields_p1 strip_deprecated)
  have m: "lit ''P1'' \<in> processed_codes ?P" by simp
  have d: "description stored_p1 \<noteq> Some (lit ''Widget'')" by (simp add: stored_p1_def lit_def)
  note a = processed_code_once [of demo_env demo_mapping "mk_row (lit ''p1'') (lit ''Widget'')"
      "lit ''P1''" "lit ''Widget''" ?P "[stored_p1]" "lit ''products.csv''" "[]"]
  note b = processed_code_once [of demo_env demo_mapping "mk_row (lit ''p1'') (lit ''Deprecated widget'')"
      "lit ''P1''" "lit ''Deprecated widget''" ?P "[stored_p1]" "lit ''products.csv''" "[]"]
  note c = processed_code_once [of demo_env demo_mapping "[]" "[]" "[]" "new_processor 100" "[]"
      "lit ''products.csv''" "[]", THEN conjunct2, THEN conjunct2, THEN conjunct2]
  from a f1 m valid_widget have x: "process_row demo_env demo_mapping (mk_row (lit ''p1'') (lit ''Widget'')) ?P [stored_p1] =
       (None, ?P\<lparr>stats := (stats ?P)\<lparr>skipped := skipped (stats ?P) + 1\<rparr>\<rparr>, [stored_p1])"
    by blast
  from b f2 have y: "process_row demo_env demo_mapping (mk_row (lit ''p1'') (lit ''Deprecated widget'')) ?P [stored_p1] =
       (None,
        ?P\<lparr>stats := (stats ?P)\<lparr>validation_errors := validation_errors (stats ?P) + 1\<rparr>,
          error_tracker := error_tracker ?P @ validation_records (mk_row (lit ''p1'') (lit ''Deprecated widget''))
              [lit ''Deprecated products should not be imported'']\<rparr>,
        [stored_p1])"
    by (simp add: invalid_deprecated)
  from x y c d show ?thesis by (simp add: new_processor_def)
qed

lemma query_empty: "query_first [] c = None"
  by (simp add: query_first_def)

text \<open>
  Two rows with the code \<open>p1\<close>: the first creates the product; the second, whose
  description starts with \<open>Deprecated\<close>, bears an already processed code and is not
  counted as skipped but as a validation error.
\<close>

theorem processed_code_counterexample:
  "process_rows demo_env demo_mapping
     [mk_row (lit ''p1'') (lit ''Widget''), mk_row (lit ''p1'') (lit ''Deprecated widget'')]
     (new_processor 100) [] =
   (None,
    \<lparr>batch_size = 100,
      stats = \<lparr>total_errors = 0, successful_batches = 0, failed_batches = 0, total_products = 1,
               created = 1, updated = 0, skipped = 0, validation_errors = 1\<rparr>,
      error_tracker = validation_records (mk_row (lit ''p1'') (lit ''Deprecated widget''))
                        [lit ''Deprecated products should not be imported''],
      processed_codes = {lit ''P1''}, tick = 1\<rparr>,
    [\<lparr>product_id = lit ''u0'', productCode = lit ''P1'', name = lit ''P1'',
      description = Some (lit ''Widget''), createdAt = 1000, modifiedAt = 1000\<rparr>])"
proof -
  have f1: "row_fields demo_env demo_mapping (mk_row (lit ''p1'') (lit ''Widget'')) = Inr (lit ''P1'', lit ''Widget'')"
    by (simp add: fields_p1 strip_widget)
  have f2: "row_fields demo_env demo_mapping (mk_row (lit ''p1'') (lit ''Deprecated widget''))
        = Inr (lit ''P1'', lit ''Deprecated widget'')"
    by (simp add: fields_p1 strip_deprecated)
  have n: "lit ''P1'' \<notin> processed_codes (new_processor 100)" by (simp add: new_processor_def)
  have i: "validate_product_data demo_env (lit ''P1'') (lit ''Deprecated widget'') \<noteq> []"
    by (simp add: invalid_deprecated)
  note a = process_row_created [OF f1 valid_widget n not_system(1) demo_no_raise(1) query_empty]
  note b = process_row_rejects [OF f2 i]
  show ?thesis
    by (simp add: a b reject_explicit invalid_deprecated) (simp add: new_processor_def demo_env_def lit_def)
qed

section \<open>Batches and the file\<close>

lemma all_fields_mapped_iff:
  "all_fields_mapped (header_mapping_of cols) \<longleftrightarrow>
     lit ''Product/Service'' \<in> set cols \<and> lit ''Product/Service Description'' \<in> set cols"
  by (simp add: all_fields_mapped_def header_mapping_of_def field_mappings_def lit_def)

lemma upsert_batch_counters:
  "failed_batches (stats (fst (snd (upsert E code d P s)))) = failed_batches (stats P)
   \<and> successful_batches (stats (fst (snd (upsert E code d P s)))) = successful_batches (stats P)"
  by (simp add: upsert_def Let_def add_total_products_def add_updated_def add_skipped_def add_created_def
      split: option.splits)

lemma row_try_batch_counters:
  "failed_batches (stats (fst (snd (row_try E hm r P s)))) = failed_batches (stats P)
   \<and> successful_batches (stats (fst (snd (row_try E hm r P s)))) = successful_batches (stats P)"
  by (simp add: row_try_def Let_def upsert_batch_counters reject_def add_skipped_def
      split: sum.splits prod.splits)

lemma process_row_batch_counters:
  "failed_batches (stats (fst (snd (process_row E hm r P s)))) = failed_batches (stats P)
   \<and> successful_batches (stats (fst (snd (process_row E hm r P s)))) = successful_batches (stats P)"
proof -
  obtain x P' s' where r: "row_try E hm r P s = (x, P', s')" by (cases "row_try E hm r P s")
  with row_try_batch_counters [of E hm r P s]
  have "failed_batches (stats P') = failed_batches (stats P)"
    "successful_batches (stats P') = successful_batches (stats P)" by simp_all
  with r show ?thesis by (cases x) (simp_all add: process_row_def add_total_errors_def)
qed

lemma process_rows_batch_counters:
  "failed_batches (stats (fst (snd (process_rows E hm rs P s)))) = failed_batches (stats P)
   \<and> successful_batches (stats (fst (snd (process_rows E hm rs P s)))) = successful_batches (stats P)"
proof (induction rs arbitrary: P s)
  case Nil
  show ?case by simp
next
  case (Cons r rs)
  show ?case unfolding process_rows_Cons using Cons.IH process_row_batch_counters by simp
qed

lemma process_batch_commit_fails:
  assumes "commit_raises E (snd (snd (process_rows E hm b P db))) = Some e"
  shows "process_batch E hm b P db =
    ((fst (snd (process_rows E hm b P db)))
       \<lparr>stats := (stats (fst (snd (process_rows E hm b P db))))
          \<lparr>failed_batches := failed_batches (stats P) + 1,
            total_errors := total_errors (stats (fst (snd (process_rows E hm b P db)))) + 1\<rparr>\<rparr>,
     db)"
proof -
  obtain P' s' where r: "process_rows E hm b P db = (None, P', s')"
    using process_rows_returns [of E hm b P db] by (cases "process_rows E hm b P db") auto
  with process_rows_batch_counters [of E hm b P db] assms show ?thesis
    by (simp add: process_batch_def batch_failed_def)
qed

lemma process_batch_commit_returns:
  assumes "commit_raises E (snd (snd (process_rows E hm b P db))) = None"
  shows "process_batch E hm b P db =
    ((fst (snd (process_rows E hm b P db)))
       \<lparr>stats := (stats (fst (snd (process_rows E hm b P db))))
          \<lparr>successful_batches := successful_batches (stats P) + 1\<rparr>\<rparr>,
     snd (snd (process_rows E hm b P db)))"
proof -
  obtain P' s' where r: "process_rows E hm b P db = (None, P', s')"
    using process_rows_returns [of E hm b P db] by (cases "process_rows E hm b P db") auto
  with process_rows_batch_counters [of E hm b P db] assms show ?thesis
    by (simp add: process_batch_def batch_succeeded_def)
qed

lemma process_batch_counted:
  "failed_batches (stats (fst (process_batch E hm b P db))) + successful_batches (stats (fst (process_batch E hm b P db)))
     = failed_batches (stats P) + successful_batches (stats P) + 1"
proof (cases "commit_raises E (snd (snd (process_rows E hm b P db)))")
  case None
  show ?thesis
    using process_rows_batch_counters [of E hm b P db]
    by (simp add: process_batch_commit_returns [OF None])
next
  case (Some e)
  show ?thesis
    using process_rows_batch_counters [of E hm b P db]
    by (simp add: process_batch_commit_fails [OF Some])
qed

lemma run_batches_Cons:
  "run_batches E hm (b # bs) P db =
     run_batches E hm bs (fst (process_batch E hm b P db)) (snd (process_batch E hm b P db))"
  by (cases "process_batch E hm b P db") simp

lemma run_batches_counted:
  "failed_batches (stats (fst (run_batches E hm bs P db))) + successful_batches (stats (fst (run_batches E hm bs P db)))
     = failed_batches (stats P) + successful_batches (stats P) + int (length bs)"
proof (induction bs arbitrary: P db)
  case Nil
  show ?case by simp
next
  case (Cons b bs)
  show ?case
    unfolding run_batches_Cons
    using Cons.IH [of "fst (process_batch E hm b P db)" "snd (process_batch E hm b P db)"]
      process_batch_counted [of E hm b P db]
    by simp
qed

lemma file_failed_result:
  "file_failed e f P db =
     (\<lparr>success = False, summary_stats = stats P,
       summary_errors = get_summary (error_tracker P @
         [\<lparr>category = lit ''file_processing'', message = exn_str e, err_ctx = FileCtx f\<rparr>])\<rparr>,
      P\<lparr>error_tracker := error_tracker P @
         [\<lparr>category = lit ''file_processing'', message = exn_str e, err_ctx = FileCtx f\<rparr>]\<rparr>,
      db)"
  by (simp add: file_failed_def Let_def add_error_def)

lemma process_file_batches:
  assumes "initialize_system_products E db = Inr db1" and "read_csv E f = Inr df"
    and "all_fields_mapped (header_mapping_of (columns df))" and "batch_size P \<noteq> 0"
  shows "process_file E f P db =
    (\<lparr>success = (failed_batches (stats (fst (run_batches E (header_mapping_of (columns df))
                     (batches (batch_size P) (rows df)) P db1))) = 0),
      summary_stats = stats (fst (run_batches E (header_mapping_of (columns df))
                     (batches (batch_size P) (rows df)) P db1)),
      summary_errors = get_summary (error_tracker (fst (run_batches E (header_mapping_of (columns df))
                     (batches (batch_size P) (rows df)) P db1)))\<rparr>,
     run_batches E (header_mapping_of (columns df)) (batches (batch_size P) (rows df)) P db1)"
  using assms by (simp add: process_file_def Let_def split: prod.splits)

lemma process_file_success:
  "success (fst (process_file E f P db)) \<longleftrightarrow>
     file_level_ok E f P db \<and> failed_batches (stats (fst (snd (process_file E f P db)))) = 0"
  by (simp add: process_file_def file_level_ok_def Let_def file_failed_def
      split: sum.splits prod.splits)

lemma process_file_summary:
  "summary_stats (fst (process_file E f P db)) = stats (fst (snd (process_file E f P db)))
   \<and> summary_errors (fst (process_file E f P db)) = get_summary (error_tracker (fst (snd (process_file E f P db))))"
  by (simp add: process_file_def Let_def file_failed_def split: sum.splits prod.splits)

section \<open>The result of a file\<close>

lemma failing_env_same:
  "\<not> is_system_product failing_commit_env (lit ''P1'')"
  "query_raises failing_commit_env s c = None"
  "commit_raises failing_commit_env s = Some (Foreign (lit ''IntegrityError''))"
  "initialize_system_products failing_commit_env db = Inr db"
  "read_csv failing_commit_env = demo_read_csv"
  "utcnow failing_commit_env n = 1000 + n"
  "generate_uuid failing_commit_env n = [117, 48 + n]"
  by (simp_all add: failing_commit_env_def demo_env_def lit_def)

lemma demo_env_io:
  "initialize_system_products demo_env db = Inr db"
  "read_csv demo_env = demo_read_csv"
  by (simp_all add: demo_env_def)

lemma read_one:
  "demo_read_csv (lit ''one.csv'') = Inr \<lparr>columns = demo_columns, rows = [mk_row (lit ''p1'') (lit ''Widget'')]\<rparr>"
  by (simp add: demo_read_csv_def lit_def)

lemma read_nodesc:
  "demo_read_csv (lit ''nodesc.csv'') =
     Inr \<lparr>columns = [lit ''Product/Service''], rows = [[(lit ''Product/Service'', Text (lit ''p1''))]]\<rparr>"
  by (simp add: demo_read_csv_def lit_def)

lemma demo_columns_mapped: "all_fields_mapped (header_mapping_of demo_columns)"
  by (simp add: all_fields_mapped_iff demo_columns_def)

lemma batches_one: "batches 100 [r] = [[r]]"
  by (simp add: batches_def)

lemma one_row_created:
  assumes "\<not> is_system_product E (lit ''P1'')" and "query_raises E [] (lit ''P1'') = None"
  shows "process_rows E demo_mapping [mk_row (lit ''p1'') (lit ''Widget'')] (new_processor 100) [] =
    (None,
     (new_processor 100)\<lparr>processed_codes := {lit ''P1''}, tick := 1,
        stats := (stats (new_processor 100))\<lparr>total_products := 1, created := 1\<rparr>\<rparr>,
     [\<lparr>product_id = generate_uuid E 0, productCode = lit ''P1'', name = lit ''P1'',
       description = Some (lit ''Widget''), createdAt = utcnow E 0, modifiedAt = utcnow E 0\<rparr>])"
proof -
  have f: "row_fields E demo_mapping (mk_row (lit ''p1'') (lit ''Widget'')) = Inr (lit ''P1'', lit ''Widget'')"
    by (simp add: fields_p1 strip_widget)
  have n: "lit ''P1'' \<notin> processed_codes (new_processor 100)" by (simp add: new_processor_def)
  from process_row_created [OF f valid_widget n assms query_empty]
  show ?thesis by (simp add: new_processor_def)
qed

lemma failed_run:
  "process_file failing_commit_env (lit ''one.csv'') (new_processor 100) [] =
     (\<lparr>success = False,
       summary_stats = \<lparr>total_errors = 1, successful_batches = 0, failed_batches = 1, total_products = 1,
                        created = 1, updated = 0, skipped = 0, validation_errors = 0\<rparr>,
       summary_errors = get_summary []\<rparr>,
      \<lparr>batch_size = 100,
       stats = \<lparr>total_errors = 1, successful_batches = 0, failed_batches = 1, total_products = 1,
                created = 1, updated = 0, skipped = 0, validation_errors = 0\<rparr>,
       error_tracker = [], processed_codes = {lit ''P1''}, tick = 1\<rparr>,
      [])"
proof -
  have b: "batch_size (new_processor 100) = 100" by (simp add: new_processor_def)
  have r: "process_batch failing_commit_env demo_mapping [mk_row (lit ''p1'') (lit ''Widget'')] (new_processor 100) [] =
      (\<lparr>batch_size = 100,
       stats = \<lparr>total_errors = 1, successful_batches = 0, failed_batches = 1, total_products = 1,
                created = 1, updated = 0, skipped = 0, validation_errors = 0\<rparr>,
       error_tracker = [], processed_codes = {lit ''P1''}, tick = 1\<rparr>, [])"
    unfolding process_batch_def one_row_created [OF failing_env_same(1,2)]
    by (simp add: failing_env_same(3) batch_failed_def new_processor_def)
  have "process_file failing_commit_env (lit ''one.csv'') (new_processor 100) [] =
     (case run_batches failing_commit_env demo_mapping [[mk_row (lit ''p1'') (lit ''Widget'')]] (new_processor 100) [] of
        (P', db') \<Rightarrow>
          (\<lparr>success = (failed_batches (stats P') = 0), summary_stats = stats P',
            summary_errors = get_summary (error_tracker P')\<rparr>, P', db'))"
    unfolding process_file_def
    by (simp add: failing_env_same read_one demo_columns_mapped Let_def b batches_one
        demo_columns_mapped [folded demo_mapping_def] demo_mapping_def [symmetric] del: run_batches.simps)
  also have "\<dots> = (\<lparr>success = False,
       summary_stats = \<lparr>total_errors = 1, successful_batches = 0, failed_batches = 1, total_products = 1,
                        created = 1, updated = 0, skipped = 0, validation_errors = 0\<rparr>,
       summary_errors = get_summary []\<rparr>,
      \<lparr>batch_size = 100,
       stats = \<lparr>total_errors = 1, successful_batches = 0, failed_batches = 1, total_products = 1,
                created = 1, updated = 0, skipped = 0, validation_errors = 0\<rparr>,
       error_tracker = [], processed_codes = {lit ''P1''}, tick = 1\<rparr>,
      [])"
    by (simp add: r)
  finally show ?thesis .
qed

text \<open>
  C1, as the code has it.  The success flag of the returned summary is true exactly when
  the part of \<open>process_file\<close> before the first batch raised nothing and the failed-batch
  counter of the summary is zero; after a file-level failure it is false whatever the
  counter.  When the rows of a batch or its commit raise (no exception leaves the rows,
  so it is the commit that can), the batch is counted as one failed batch,
  \<open>total_errors\<close> is one more than after its rows, and the stored products stay as they
  were before the batch.  A
  batch whose commit returns is counted as one successful batch and its session is
  stored.  Either way the run goes on with the next batch: every batch of the list is
  counted, as failed or as successful.
\<close>

theorem success_iff_no_failure:
  "(success (fst (process_file E f P db)) \<longleftrightarrow>
      file_level_ok E f P db \<and> failed_batches (summary_stats (fst (process_file E f P db))) = 0)
   \<and> (fst (process_rows E hm b P db) \<noteq> None
        \<or> commit_raises E (snd (snd (process_rows E hm b P db))) \<noteq> None \<longrightarrow>
        process_batch E hm b P db =
          ((fst (snd (process_rows E hm b P db)))
             \<lparr>stats := (stats (fst (snd (process_rows E hm b P db))))
                \<lparr>failed_batches := failed_batches (stats P) + 1,
                  total_errors := total_errors (stats (fst (snd (process_rows E hm b P db)))) + 1\<rparr>\<rparr>,
           db))
   \<and> (commit_raises E (snd (snd (process_rows E hm b P db))) = None \<longrightarrow>
        process_batch E hm b P db =
          ((fst (snd (process_rows E hm b P db)))
             \<lparr>stats := (stats (fst (snd (process_rows E hm b P db))))
                \<lparr>successful_batches := successful_batches (stats P) + 1\<rparr>\<rparr>,
           snd (snd (process_rows E hm b P db))))
   \<and> run_batches E hm (b # bs) P db =
        run_batches E hm bs (fst (process_batch E hm b P db)) (snd (process_batch E hm b P db))
   \<and> failed_batches (stats (fst (run_batches E hm (b # bs) P db)))
        + successful_batches (stats (fst (run_batches E hm (b # bs) P db)))
      = failed_batches (stats P) + successful_batches (stats P) + int (length (b # bs))"
proof (intro conjI impI)
  show "success (fst (process_file E f P db)) \<longleftrightarrow>
      file_level_ok E f P db \<and> failed_batches (summary_stats (fst (process_file E f P db))) = 0"
    using process_file_success [of E f P db] process_file_summary [of E f P db] by simp
  show "process_batch E hm b P db =
          ((fst (snd (process_rows E hm b P db)))
             \<lparr>stats := (stats (fst (snd (process_rows E hm b P db))))
                \<lparr>failed_batches := failed_batches (stats P) + 1,
                  total_errors := total_errors (stats (fst (snd (process_rows E hm b P db)))) + 1\<rparr>\<rparr>,
           db)" if "fst (process_rows E hm b P db) \<noteq> None
        \<or> commit_raises E (snd (snd (process_rows E hm b P db))) \<noteq> None"
    using that process_rows_returns [of E hm b P db] process_batch_commit_fails [of E hm b P db] by auto
  show "process_batch E hm b P db =
          ((fst (snd (process_rows E hm b P db)))
             \<lparr>stats := (stats (fst (snd (process_rows E hm b P db))))
                \<lparr>successful_batches := successful_batches (stats P) + 1\<rparr>\<rparr>,
           snd (snd (process_rows E hm b P db)))"
    if "commit_raises E (snd (snd (process_rows E hm b P db))) = None"
    by (rule process_batch_commit_returns [OF that])
  show "run_batches E hm (b # bs) P db =
        run_batches E hm bs (fst (process_batch E hm b P db)) (snd (process_batch E hm b P db))"
    by (rule run_batches_Cons)
  show "failed_batches (stats (fst (run_batches E hm (b # bs) P db)))
        + successful_batches (stats (fst (run_batches E hm (b # bs) P db)))
      = failed_batches (stats P) + successful_batches (stats P) + int (length (b # bs))"
    by (rule run_batches_counted)
qed

theorem success_iff_no_failure_witness:
  "file_level_ok failing_commit_env (lit ''one.csv'') (new_processor 100) []
   \<and> \<not> success (fst (process_file failing_commit_env (lit ''one.csv'') (new_processor 100) []))
   \<and> failed_batches (summary_stats (fst (process_file failing_commit_env (lit ''one.csv'') (new_processor 100) []))) = 1
   \<and> total_errors (summary_stats (fst (process_file failing_commit_env (lit ''one.csv'') (new_processor 100) []))) = 1
   \<and> commit_raises failing_commit_env
        (snd (snd (process_rows failing_commit_env demo_mapping [mk_row (lit ''p1'') (lit ''Widget'')] (new_processor 100) [])))
        \<noteq> None
   \<and> snd (process_batch failing_commit_env demo_mapping [mk_row (lit ''p1'') (lit ''Widget'')] (new_processor 100) []) = []
   \<and> failed_batches (stats (fst (process_batch failing_commit_env demo_mapping [mk_row (lit ''p1'') (lit ''Widget'')] (new_processor 100) []))) = 1"
proof -
  note a = success_iff_no_failure [of failing_commit_env "lit ''one.csv''" "new_processor 100" "[]"
      demo_mapping "[mk_row (lit ''p1'') (lit ''Widget'')]" "[]"]
  have k: "file_level_ok failing_commit_env (lit ''one.csv'') (new_processor 100) []"
    by (simp add: file_level_ok_def failing_env_same read_one demo_columns_mapped new_processor_def)
  have c: "commit_raises failing_commit_env
        (snd (snd (process_rows failing_commit_env demo_mapping [mk_row (lit ''p1'') (lit ''Widget'')] (new_processor 100) [])))
        \<noteq> None"
    by (simp add: failing_env_same(3))
  from a [THEN conjunct2, THEN conjunct1, rule_format, OF disjI2, OF c]
  have p: "snd (process_batch failing_commit_env demo_mapping [mk_row (lit ''p1'') (lit ''Widget'')] (new_processor 100) []) = []"
    "failed_batches (stats (fst (process_batch failing_commit_env demo_mapping [mk_row (lit ''p1'') (lit ''Widget'')] (new_processor 100) []))) = 1"
    by (simp_all add: new_processor_def)
  from a [THEN conjunct1] k c p show ?thesis by (simp add: failed_run)
qed

text \<open>
  A file without the description column: the result reports no success, and the
  failed-batch counter is zero.
\<close>

theorem success_iff_counterexample:
  "\<not> success (fst (process_file demo_env (lit ''nodesc.csv'') (new_processor 100) []))
   \<and> failed_batches (summary_stats (fst (process_file demo_env (lit ''nodesc.csv'') (new_processor 100) []))) = 0"
proof -
  have c: "lit ''Product/Service Description'' \<noteq> lit ''Product/Service''"
    by (simp add: lit_def)
  have "process_file demo_env (lit ''nodesc.csv'') (new_processor 100) [] =
      file_failed (ValueError (lit ''Missing required columns in CSV file'')) (lit ''nodesc.csv'') (new_processor 100) []"
    unfolding process_file_def
    by (simp add: demo_env_io read_nodesc all_fields_mapped_iff c Let_def)
  then show ?thesis by (simp add: file_failed_def Let_def new_processor_def)
qed

text \<open>
  C3 at a failing input: one valid row, and a database whose commit raises.  The batch
  is counted (\<open>failed_batches\<close> and \<open>total_errors\<close> are 1) and the result reports no
  success, but the error tracker holds no record: the handler of lines 97 to 101 logs the
  exception and does not call \<open>add_error\<close>, unlike the handlers of the row and of the
  file.
\<close>

theorem batch_failure_unrecorded:
  "process_file failing_commit_env (lit ''one.csv'') (new_processor 100) [] =
     (\<lparr>success = False,
       summary_stats = \<lparr>total_errors = 1, successful_batches = 0, failed_batches = 1, total_products = 1,
                        created = 1, updated = 0, skipped = 0, validation_errors = 0\<rparr>,
       summary_errors = get_summary []\<rparr>,
      \<lparr>batch_size = 100,
       stats = \<lparr>total_errors = 1, successful_batches = 0, failed_batches = 1, total_products = 1,
                created = 1, updated = 0, skipped = 0, validation_errors = 0\<rparr>,
       error_tracker = [], processed_codes = {lit ''P1''}, tick = 1\<rparr>,
      [])"
  by (rule failed_run)

text \<open>
  C7.  When the frame read from the file lacks one of the two required columns,
  \<open>process_file\<close> fails as a whole: the result reports no success, one record of
  category \<open>file_processing\<close> with the file as its context is added to the summary, and
  no row is processed (the counters, the processed codes and the clock are those of
  before).  When the system products were initialised, the record carries the message
  of the missing columns, and the stored products are those the initialisation left.
\<close>

theorem missing_column_fatal:
  assumes "read_csv E f = Inr df"
    and "lit ''Product/Service'' \<notin> set (columns df) \<or> lit ''Product/Service Description'' \<notin> set (columns df)"
  shows "(\<exists>e db'. process_file E f P db =
            (\<lparr>success = False, summary_stats = stats P,
              summary_errors = get_summary (error_tracker P @
                [\<lparr>category = lit ''file_processing'', message = exn_str e, err_ctx = FileCtx f\<rparr>])\<rparr>,
             P\<lparr>error_tracker := error_tracker P @
                [\<lparr>category = lit ''file_processing'', message = exn_str e, err_ctx = FileCtx f\<rparr>]\<rparr>,
             db'))
     \<and> (initialize_system_products E db = Inr db1 \<longrightarrow>
          process_file E f P db =
            (\<lparr>success = False, summary_stats = stats P,
              summary_errors = get_summary (error_tracker P @
                [\<lparr>category = lit ''file_processing'',
                  message = lit ''Missing required columns in CSV file'', err_ctx = FileCtx f\<rparr>])\<rparr>,
             P\<lparr>error_tracker := error_tracker P @
                [\<lparr>category = lit ''file_processing'',
                  message = lit ''Missing required columns in CSV file'', err_ctx = FileCtx f\<rparr>]\<rparr>,
             db1))"
proof -
  from assms(2) have m: "\<not> all_fields_mapped (header_mapping_of (columns df))"
    by (simp add: all_fields_mapped_iff)
  have b: "process_file E f P db =
      file_failed (ValueError (lit ''Missing required columns in CSV file'')) f P db1"
    if "initialize_system_products E db = Inr db1" for db1
    using that assms(1) m by (simp add: process_file_def Let_def)
  have a: "\<exists>e db'. process_file E f P db = file_failed e f P db'"
  proof (cases "initialize_system_products E db")
    case (Inl e)
    then have "process_file E f P db = file_failed e f P db" by (simp add: process_file_def)
    then show ?thesis by blast
  next
    case (Inr db2)
    from b [OF this] show ?thesis by blast
  qed
  from a b show ?thesis by (auto simp add: file_failed_result)
qed

theorem missing_column_fatal_witness:
  "read_csv demo_env (lit ''nodesc.csv'') =
     Inr \<lparr>columns = [lit ''Product/Service''], rows = [[(lit ''Product/Service'', Text (lit ''p1''))]]\<rparr>
   \<and> lit ''Product/Service Description'' \<notin> set [lit ''Product/Service'']
   \<and> process_file demo_env (lit ''nodesc.csv'') (new_processor 100) [stored_p1] =
       (\<lparr>success = False, summary_stats = stats (new_processor 100),
         summary_errors = get_summary
           [\<lparr>category = lit ''file_processing'',
             message = lit ''Missing required columns in CSV file'', err_ctx = FileCtx (lit ''nodesc.csv'')\<rparr>]\<rparr>,
        (new_processor 100)\<lparr>error_tracker :=
           [\<lparr>category = lit ''file_processing'',
             message = lit ''Missing required columns in CSV file'', err_ctx = FileCtx (lit ''nodesc.csv'')\<rparr>]\<rparr>,
        [stored_p1])"
proof -
  have r: "read_csv demo_env (lit ''nodesc.csv'') =
     Inr \<lparr>columns = [lit ''Product/Service''], rows = [[(lit ''Product/Service'', Text (lit ''p1''))]]\<rparr>"
    by (simp add: demo_env_io read_nodesc)
  have c: "lit ''Product/Service Description'' \<notin> set [lit ''Product/Service'']"
    by (simp add: lit_def)
  then have c': "lit ''Product/Service'' \<notin> set (columns \<lparr>columns = [lit ''Product/Service''], rows = [[(lit ''Product/Service'', Text (lit ''p1''))]]\<rparr>)
      \<or> lit ''Product/Service Description'' \<notin> set (columns \<lparr>columns = [lit ''Product/Service''], rows = [[(lit ''Product/Service'', Text (lit ''p1''))]]\<rparr>)"
    by simp
  from missing_column_fatal [OF r c', of "new_processor 100" "[stored_p1]" "[stored_p1]", THEN conjunct2, rule_format, OF demo_env_io(1)]
    r c show ?thesis by (simp add: new_processor_def)
qed

section \<open>Batches in file order\<close>

declare range_from.simps [simp del]

lemma range_from_more:
  "0 < step \<Longrightarrow> start < stop \<Longrightarrow>
     range_from start stop step = start # range_from (start + step) stop step"
  by (subst range_from.simps) simp

lemma range_from_done: "\<not> start < stop \<Longrightarrow> range_from start stop step = []"
  by (subst range_from.simps) simp

lemma concat_slices:
  "0 < k \<Longrightarrow>
   concat (map (\<lambda>i. take k (drop i rs)) (range_from start (length rs) k)) = drop start rs"
proof (induction start "length rs" k rule: range_from.induct)
  case (1 start step)
  show ?case
  proof (cases "start < length rs")
    case True
    have "take step (drop start rs) @ drop (start + step) rs = drop start rs"
      by (metis add.commute append_take_drop_id drop_drop)
    with 1 True show ?thesis by (simp add: range_from_more [OF 1(2) True])
  next
    case False
    then show ?thesis by (simp add: range_from_done)
  qed
qed

lemma length_range_from:
  "0 < k \<Longrightarrow> length (range_from start stop k) = (stop - start + k - 1) div k"
proof (induction start stop k rule: range_from.induct)
  case (1 start stop step)
  show ?case
  proof (cases "start < stop")
    case True
    note u = range_from_more [OF 1(2) True]
    from 1 True have ih: "length (range_from (start + step) stop step) = (stop - (start + step) + step - 1) div step"
      by simp
    show ?thesis
    proof (cases "stop - start \<le> step")
      case le: True
      with True 1(2) have "(stop - start + step - 1) div step = 1"
        by (intro div_nat_eqI) simp_all
      moreover from le 1(2) have "(stop - (start + step) + step - 1) div step = 0" by simp
      ultimately show ?thesis using ih by (simp add: u)
    next
      case False
      then have "step < stop - start" by simp
      with 1(2) have "(stop - start + step - 1) div step = (stop - start - step + step - 1) div step + 1"
        by (metis Nat.add_diff_assoc add.commute div_add_self1
            div_le_dividend div_self le_add_diff_inverse less_or_eq_imp_le linorder_not_less)
      moreover have "stop - start - step = stop - (start + step)" by simp
      ultimately show ?thesis using ih by (simp add: u)
    qed
  next
    case False
    with 1(2) show ?thesis by (simp add: range_from_done)
  qed
qed

lemma nth_range_from:
  "0 < k \<Longrightarrow> i < length (range_from start stop k) \<Longrightarrow>
     range_from start stop k ! i = start + i * k \<and> start + i * k < stop"
proof (induction start stop k arbitrary: i rule: range_from.induct)
  case (1 start stop step)
  show ?case
  proof (cases "start < stop")
    case True
    note u = range_from_more [OF 1(2) True]
    show ?thesis
    proof (cases i)
      case 0
      with True show ?thesis by (simp add: u)
    next
      case (Suc j)
      with 1(3) have "j < length (range_from (start + step) stop step)"
        by (simp add: u)
      with 1(1) [of j] True 1(2) have "range_from (start + step) stop step ! j = start + step + j * step
          \<and> start + step + j * step < stop" by simp
      with Suc show ?thesis by (simp add: u)
    qed
  next
    case False
    with 1(3) show ?thesis by (simp add: range_from_done)
  qed
qed

lemma ceiling_batches:
  fixes n k :: nat
  assumes "0 < k"
  shows "int ((n + k - 1) div k) = \<lceil>real n / real k\<rceil>"
proof -
  define q where "q = (n + k - 1) div k"
  define r where "r = (n + k - 1) mod k"
  have e: "n + k - 1 = q * k + r" by (simp add: q_def r_def)
  from assms have rk: "r < k" by (simp add: r_def)
  from e rk assms have a: "n \<le> q * k" by linarith
  from e assms have b: "q * k < n + k" by linarith
  from a have "real n \<le> real q * real k" by (metis of_nat_le_iff of_nat_mult)
  with assms have u: "real n / real k \<le> real q" by (simp add: pos_divide_le_eq)
  from b have "real q * real k < real n + real k" by (metis of_nat_less_iff of_nat_mult of_nat_add)
  then have "(real q - 1) * real k < real n" by (simp add: algebra_simps)
  with assms have l: "real q - 1 < real n / real k" by (simp add: pos_less_divide_eq)
  have "\<lceil>real n / real k\<rceil> = int q"
    by (rule ceiling_unique) (use l u in simp_all)
  then show ?thesis by (simp add: q_def)
qed

lemma batches_concat: "0 < bs \<Longrightarrow> concat (batches bs rs) = rs"
  using concat_slices [of "nat bs" rs 0] by (simp add: batches_def)

lemma batches_length: "0 < bs \<Longrightarrow> int (length (batches bs rs)) = \<lceil>real (length rs) / real_of_int bs\<rceil>"
  using ceiling_batches [of "nat bs" "length rs"] length_range_from [of "nat bs" 0 "length rs"]
  by (simp add: batches_def)

lemma batches_nth:
  assumes "0 < bs" and "i < length (batches bs rs)"
  shows "batches bs rs ! i = take (nat bs) (drop (i * nat bs) rs) \<and> i * nat bs < length rs"
proof -
  from assms have "i < length (range_from 0 (length rs) (nat bs))" by (simp add: batches_def)
  with nth_range_from [of "nat bs" i 0 "length rs"] assms(1) show ?thesis
    by (simp add: batches_def)
qed

lemma batches_sizes:
  assumes "0 < bs" and "i < length (batches bs rs)"
  shows "0 < length (batches bs rs ! i) \<and> length (batches bs rs ! i) \<le> nat bs
       \<and> (Suc i < length (batches bs rs) \<longrightarrow> length (batches bs rs ! i) = nat bs)"
proof -
  from batches_nth [OF assms] have n: "batches bs rs ! i = take (nat bs) (drop (i * nat bs) rs)"
    and l: "i * nat bs < length rs" by simp_all
  have "length (batches bs rs ! i) = nat bs" if "Suc i < length (batches bs rs)"
  proof -
    from batches_nth [OF assms(1) that] have "Suc i * nat bs < length rs" by simp
    then show ?thesis by (simp add: n)
  qed
  with n l assms(1) show ?thesis by simp
qed

lemma process_rows_append:
  "process_rows E hm (xs @ ys) P s =
     process_rows E hm ys (fst (snd (process_rows E hm xs P s))) (snd (snd (process_rows E hm xs P s)))"
proof (induction xs arbitrary: P s)
  case Nil
  show ?case by simp
next
  case (Cons x xs)
  show ?case using Cons.IH by (simp add: process_rows_Cons del: process_rows.simps)
qed

lemma process_rows_in_order:
  "process_rows E hm rs P s = (None, handled_in_order E hm rs (P, s))"
proof (induction rs arbitrary: P s)
  case Nil
  show ?case by (simp add: handled_in_order_def)
next
  case (Cons r rs)
  obtain P' s' where r: "process_row E hm r P s = (None, P', s')"
    using process_row_returns [of E hm r P s] by (cases "process_row E hm r P s") auto
  with Cons.IH [of P' s'] show ?case by (simp add: handled_in_order_def)
qed

lemma handled_in_order_Nil: "handled_in_order E hm [] st = st"
  by (simp add: handled_in_order_def)

lemma handled_in_order_Cons:
  "handled_in_order E hm (r # rs) st =
     handled_in_order E hm rs (snd (process_row E hm r (fst st) (snd st)))"
  by (simp add: handled_in_order_def)

lemma handled_in_order_append:
  "handled_in_order E hm (xs @ ys) st = handled_in_order E hm ys (handled_in_order E hm xs st)"
  by (simp add: handled_in_order_def)

lemma process_batch_in_order:
  "process_batch E hm b P db =
     (case commit_raises E (snd (handled_in_order E hm b (P, db))) of
        Some e \<Rightarrow> (batch_failed (fst (handled_in_order E hm b (P, db))), db)
      | None \<Rightarrow> (batch_succeeded (fst (handled_in_order E hm b (P, db))),
                 snd (handled_in_order E hm b (P, db))))"
  by (simp add: process_batch_def process_rows_in_order split: prod.splits option.splits)

lemma run_batches_in_order:
  "run_batches E hm bss P db = foldl (\<lambda>st b. process_batch E hm b (fst st) (snd st)) (P, db) bss"
proof (induction bss arbitrary: P db)
  case Nil
  show ?case by simp
next
  case (Cons b bss)
  show ?case using Cons.IH by (simp add: run_batches_Cons del: run_batches.simps)
qed

text \<open>
  C8.  For a positive batch size \<open>bs\<close> (the constructor's default is 100), the batches
  of \<open>process_file\<close> are consecutive slices of the rows in file order: put end to end
  they give the rows back, batch \<open>i\<close> holds the \<open>bs\<close> rows from position \<open>i * bs\<close> on,
  no batch is empty, and every batch but the last has exactly \<open>bs\<close> rows.  Their number
  is the ceiling of the number of rows divided by \<open>bs\<close>.  A file that passes the
  file-level checks is processed by running these batches, and each of them is counted
  once, as failed or successful.  The batches run one after the other in the order of
  the list, each from the processor and the stored products the one before left.  A
  batch starts its session from the stored products, hands its rows to the row handler
  from the first to the last, each row from the processor and the session the row
  before left, and then commits.  So handling \<open>xs @ ys\<close> is handling \<open>xs\<close> and then
  \<open>ys\<close>.
\<close>

theorem batches_partition:
  assumes "0 < bs"
  shows "concat (batches bs rs) = rs
     \<and> int (length (batches bs rs)) = \<lceil>real (length rs) / real_of_int bs\<rceil>
     \<and> (\<forall>i < length (batches bs rs).
           batches bs rs ! i = take (nat bs) (drop (i * nat bs) rs)
         \<and> 0 < length (batches bs rs ! i) \<and> length (batches bs rs ! i) \<le> nat bs
         \<and> (Suc i < length (batches bs rs) \<longrightarrow> length (batches bs rs ! i) = nat bs))
     \<and> (batch_size P = bs \<and> initialize_system_products E db = Inr db1 \<and> read_csv E f = Inr df
          \<and> all_fields_mapped (header_mapping_of (columns df)) \<and> rows df = rs \<longrightarrow>
          snd (process_file E f P db) = run_batches E (header_mapping_of (columns df)) (batches bs rs) P db1
          \<and> failed_batches (stats (fst (snd (process_file E f P db))))
              + successful_batches (stats (fst (snd (process_file E f P db))))
            = failed_batches (stats P) + successful_batches (stats P) + \<lceil>real (length rs) / real_of_int bs\<rceil>)
     \<and> process_rows E hm (xs @ ys) P s =
          process_rows E hm ys (fst (snd (process_rows E hm xs P s))) (snd (snd (process_rows E hm xs P s)))
     \<and> run_batches E hm bss P db =
          foldl (\<lambda>st b. process_batch E hm b (fst st) (snd st)) (P, db) bss
     \<and> process_batch E hm batch P db =
          (case commit_raises E (snd (handled_in_order E hm batch (P, db))) of
             Some e \<Rightarrow> (batch_failed (fst (handled_in_order E hm batch (P, db))), db)
           | None \<Rightarrow> (batch_succeeded (fst (handled_in_order E hm batch (P, db))),
                      snd (handled_in_order E hm batch (P, db))))
     \<and> process_rows E hm batch P s = (None, handled_in_order E hm batch (P, s))
     \<and> handled_in_order E hm [] st = st
     \<and> handled_in_order E hm (r # batch) st =
          handled_in_order E hm batch (snd (process_row E hm r (fst st) (snd st)))"
proof (intro conjI allI impI)
  show "concat (batches bs rs) = rs" by (rule batches_concat [OF assms])
  show "int (length (batches bs rs)) = \<lceil>real (length rs) / real_of_int bs\<rceil>"
    by (rule batches_length [OF assms])
  show "process_rows E hm (xs @ ys) P s =
          process_rows E hm ys (fst (snd (process_rows E hm xs P s))) (snd (snd (process_rows E hm xs P s)))"
    by (rule process_rows_append)
  show "run_batches E hm bss P db =
          foldl (\<lambda>st b. process_batch E hm b (fst st) (snd st)) (P, db) bss"
    by (rule run_batches_in_order)
  show "process_batch E hm batch P db =
          (case commit_raises E (snd (handled_in_order E hm batch (P, db))) of
             Some e \<Rightarrow> (batch_failed (fst (handled_in_order E hm batch (P, db))), db)
           | None \<Rightarrow> (batch_succeeded (fst (handled_in_order E hm batch (P, db))),
                      snd (handled_in_order E hm batch (P, db))))"
    by (rule process_batch_in_order)
  show "process_rows E hm batch P s = (None, handled_in_order E hm batch (P, s))"
    by (rule process_rows_in_order)
  show "handled_in_order E hm [] st = st" by (rule handled_in_order_Nil)
  show "handled_in_order E hm (r # batch) st =
          handled_in_order E hm batch (snd (process_row E hm r (fst st) (snd st)))"
    by (rule handled_in_order_Cons)
next
  fix i assume i: "i < length (batches bs rs)"
  from batches_nth [OF assms i] show "batches bs rs ! i = take (nat bs) (drop (i * nat bs) rs)" by simp
  from batches_sizes [OF assms i] show "0 < length (batches bs rs ! i)"
    and "length (batches bs rs ! i) \<le> nat bs" by simp_all
  show "length (batches bs rs ! i) = nat bs" if "Suc i < length (batches bs rs)"
    using batches_sizes [OF assms i] that by simp
next
  assume a: "batch_size P = bs \<and> initialize_system_products E db = Inr db1 \<and> read_csv E f = Inr df
          \<and> all_fields_mapped (header_mapping_of (columns df)) \<and> rows df = rs"
  with assms have z: "batch_size P \<noteq> 0" by simp
  from a have p: "process_file E f P db =
    (\<lparr>success = (failed_batches (stats (fst (run_batches E (header_mapping_of (columns df))
                     (batches bs rs) P db1))) = 0),
      summary_stats = stats (fst (run_batches E (header_mapping_of (columns df))
                     (batches bs rs) P db1)),
      summary_errors = get_summary (error_tracker (fst (run_batches E (header_mapping_of (columns df))
                     (batches bs rs) P db1)))\<rparr>,
     run_batches E (header_mapping_of (columns df)) (batches bs rs) P db1)"
    using process_file_batches [of E db db1 f df P] z by simp
  then show "snd (process_file E f P db) = run_batches E (header_mapping_of (columns df)) (batches bs rs) P db1"
    by simp
  from p run_batches_counted [of E "header_mapping_of (columns df)" "batches bs rs" P db1]
    batches_length [OF assms, of rs]
  show "failed_batches (stats (fst (snd (process_file E f P db))))
              + successful_batches (stats (fst (snd (process_file E f P db))))
            = failed_batches (stats P) + successful_batches (stats P) + \<lceil>real (length rs) / real_of_int bs\<rceil>"
    by simp
qed

lemma read_products:
  "read_csv demo_env (lit ''products.csv'') = Inr \<lparr>columns = demo_columns, rows = demo_rows\<rparr>"
  by (simp add: demo_env_io demo_read_csv_def)

lemma demo_batches:
  "batches 2 demo_rows =
     [[mk_row (lit ''p1'') (lit ''Widget''), mk_row (lit ''p1'') (lit ''Deprecated widget'')],
      [mk_row (lit '' p2 '') (lit ''Gadget'')]]"
  by (simp add: batches_def demo_rows_def range_from.simps)

lemma demo_row1:
  "process_row demo_env demo_mapping (mk_row (lit ''p1'') (lit ''Widget'')) (new_processor 2) [] =
     (None,
      \<lparr>batch_size = 2,
        stats = \<lparr>total_errors = 0, successful_batches = 0, failed_batches = 0, total_products = 1,
                 created = 1, updated = 0, skipped = 0, validation_errors = 0\<rparr>,
        error_tracker = [], processed_codes = {lit ''P1''}, tick = 1\<rparr>,
      [\<lparr>product_id = lit ''u0'', productCode = lit ''P1'', name = lit ''P1'',
        description = Some (lit ''Widget''), createdAt = 1000, modifiedAt = 1000\<rparr>])"
proof -
  have f1: "row_fields demo_env demo_mapping (mk_row (lit ''p1'') (lit ''Widget'')) = Inr (lit ''P1'', lit ''Widget'')"
    by (simp add: fields_p1 strip_widget)
  have n1: "lit ''P1'' \<notin> processed_codes (new_processor 2)" by (simp add: new_processor_def)
  show ?thesis
    unfolding process_row_created [OF f1 valid_widget n1 not_system(1) demo_no_raise(1) query_empty]
    by (simp add: new_processor_def demo_env_def lit_def)
qed

lemma demo_row2:
  "process_row demo_env demo_mapping (mk_row (lit ''p1'') (lit ''Deprecated widget''))
     \<lparr>batch_size = 2,
       stats = \<lparr>total_errors = 0, successful_batches = 0, failed_batches = 0, total_products = 1,
                created = 1, updated = 0, skipped = 0, validation_errors = 0\<rparr>,
       error_tracker = [], processed_codes = {lit ''P1''}, tick = 1\<rparr>
     [\<lparr>product_id = lit ''u0'', productCode = lit ''P1'', name = lit ''P1'',
       description = Some (lit ''Widget''), createdAt = 1000, modifiedAt = 1000\<rparr>] =
     (None,
      \<lparr>batch_size = 2,
        stats = \<lparr>total_errors = 0, successful_batches = 0, failed_batches = 0, total_products = 1,
                 created = 1, updated = 0, skipped = 0, validation_errors = 1\<rparr>,
        error_tracker = validation_records (mk_row (lit ''p1'') (lit ''Deprecated widget''))
                          [lit ''Deprecated products should not be imported''],
        processed_codes = {lit ''P1''}, tick = 1\<rparr>,
      [\<lparr>product_id = lit ''u0'', productCode = lit ''P1'', name = lit ''P1'',
        description = Some (lit ''Widget''), createdAt = 1000, modifiedAt = 1000\<rparr>])"
proof -
  have f2: "row_fields demo_env demo_mapping (mk_row (lit ''p1'') (lit ''Deprecated widget''))
      = Inr (lit ''P1'', lit ''Deprecated widget'')"
    by (simp add: fields_p1 strip_deprecated)
  have i2: "validate_product_data demo_env (lit ''P1'') (lit ''Deprecated widget'') \<noteq> []"
    by (simp add: invalid_deprecated)
  show ?thesis
    unfolding process_row_rejects [OF f2 i2]
    by (simp add: reject_explicit invalid_deprecated)
qed

lemma demo_row3:
  "process_row demo_env demo_mapping (mk_row (lit '' p2 '') (lit ''Gadget''))
     \<lparr>batch_size = 2,
       stats = \<lparr>total_errors = 0, successful_batches = 1, failed_batches = 0, total_products = 1,
                created = 1, updated = 0, skipped = 0, validation_errors = 1\<rparr>,
       error_tracker = validation_records (mk_row (lit ''p1'') (lit ''Deprecated widget''))
                         [lit ''Deprecated products should not be imported''],
       processed_codes = {lit ''P1''}, tick = 1\<rparr>
     [\<lparr>product_id = lit ''u0'', productCode = lit ''P1'', name = lit ''P1'',
       description = Some (lit ''Widget''), createdAt = 1000, modifiedAt = 1000\<rparr>] =
     (None,
      \<lparr>batch_size = 2,
        stats = \<lparr>total_errors = 0, successful_batches = 1, failed_batches = 0, total_products = 2,
                 created = 2, updated = 0, skipped = 0, validation_errors = 1\<rparr>,
        error_tracker = validation_records (mk_row (lit ''p1'') (lit ''Deprecated widget''))
                          [lit ''Deprecated products should not be imported''],
        processed_codes = {lit ''P2'', lit ''P1''}, tick = 2\<rparr>,
      [\<lparr>product_id = lit ''u0'', productCode = lit ''P1'', name = lit ''P1'',
        description = Some (lit ''Widget''), createdAt = 1000, modifiedAt = 1000\<rparr>,
       \<lparr>product_id = lit ''u1'', productCode = lit ''P2'', name = lit ''P2'',
        description = Some (lit ''Gadget''), createdAt = 1001, modifiedAt = 1001\<rparr>])"
proof -
  let ?A = "\<lparr>product_id = lit ''u0'', productCode = lit ''P1'', name = lit ''P1'',
      description = Some (lit ''Widget''), createdAt = 1000, modifiedAt = 1000\<rparr>"
  let ?S3 = "\<lparr>batch_size = 2,
       stats = \<lparr>total_errors = 0, successful_batches = 1, failed_batches = 0, total_products = 1,
                created = 1, updated = 0, skipped = 0, validation_errors = 1\<rparr>,
       error_tracker = validation_records (mk_row (lit ''p1'') (lit ''Deprecated widget''))
                         [lit ''Deprecated products should not be imported''],
       processed_codes = {lit ''P1''}, tick = 1\<rparr>"
  have f3: "row_fields demo_env demo_mapping (mk_row (lit '' p2 '') (lit ''Gadget'')) = Inr (lit ''P2'', lit ''Gadget'')"
    by (simp add: fields_p2 strip_gadget)
  have n3: "lit ''P2'' \<notin> processed_codes ?S3" by (simp add: lit_def)
  have q3: "query_first [?A] (lit ''P2'') = None" by (simp add: query_first_def lit_def)
  show ?thesis
    unfolding process_row_created [OF f3 valid_gadget n3 not_system(2) demo_no_raise(1) q3]
    by (simp add: demo_env_def lit_def)
qed

lemma demo_first_batch:
  "handled_in_order demo_env demo_mapping
     [mk_row (lit ''p1'') (lit ''Widget''), mk_row (lit ''p1'') (lit ''Deprecated widget'')]
     (new_processor 2, []) =
     (\<lparr>batch_size = 2,
        stats = \<lparr>total_errors = 0, successful_batches = 0, failed_batches = 0, total_products = 1,
                 created = 1, updated = 0, skipped = 0, validation_errors = 1\<rparr>,
        error_tracker = validation_records (mk_row (lit ''p1'') (lit ''Deprecated widget''))
                          [lit ''Deprecated products should not be imported''],
        processed_codes = {lit ''P1''}, tick = 1\<rparr>,
      [\<lparr>product_id = lit ''u0'', productCode = lit ''P1'', name = lit ''P1'',
        description = Some (lit ''Widget''), createdAt = 1000, modifiedAt = 1000\<rparr>])"
  by (simp only: handled_in_order_Cons handled_in_order_Nil fst_conv snd_conv demo_row1 demo_row2)

lemma demo_second_batch:
  "handled_in_order demo_env demo_mapping [mk_row (lit '' p2 '') (lit ''Gadget'')]
     (\<lparr>batch_size = 2,
       stats = \<lparr>total_errors = 0, successful_batches = 1, failed_batches = 0, total_products = 1,
                created = 1, updated = 0, skipped = 0, validation_errors = 1\<rparr>,
       error_tracker = validation_records (mk_row (lit ''p1'') (lit ''Deprecated widget''))
                         [lit ''Deprecated products should not be imported''],
       processed_codes = {lit ''P1''}, tick = 1\<rparr>,
      [\<lparr>product_id = lit ''u0'', productCode = lit ''P1'', name = lit ''P1'',
        description = Some (lit ''Widget''), createdAt = 1000, modifiedAt = 1000\<rparr>]) =
     (\<lparr>batch_size = 2,
        stats = \<lparr>total_errors = 0, successful_batches = 1, failed_batches = 0, total_products = 2,
                 created = 2, updated = 0, skipped = 0, validation_errors = 1\<rparr>,
        error_tracker = validation_records (mk_row (lit ''p1'') (lit ''Deprecated widget''))
                          [lit ''Deprecated products should not be imported''],
        processed_codes = {lit ''P2'', lit ''P1''}, tick = 2\<rparr>,
      [\<lparr>product_id = lit ''u0'', productCode = lit ''P1'', name = lit ''P1'',
        description = Some (lit ''Widget''), createdAt = 1000, modifiedAt = 1000\<rparr>,
       \<lparr>product_id = lit ''u1'', productCode = lit ''P2'', name = lit ''P2'',
        description = Some (lit ''Gadget''), createdAt = 1001, modifiedAt = 1001\<rparr>])"
  by (simp only: handled_in_order_Cons handled_in_order_Nil fst_conv snd_conv demo_row3)

lemma demo_run_in_order:
  "run_batches demo_env demo_mapping
     [[mk_row (lit ''p1'') (lit ''Widget''), mk_row (lit ''p1'') (lit ''Deprecated widget'')],
      [mk_row (lit '' p2 '') (lit ''Gadget'')]]
     (new_processor 2) [] =
   (\<lparr>batch_size = 2,
      stats = \<lparr>total_errors = 0, successful_batches = 2, failed_batches = 0, total_products = 2,
               created = 2, updated = 0, skipped = 0, validation_errors = 1\<rparr>,
      error_tracker = validation_records (mk_row (lit ''p1'') (lit ''Deprecated widget''))
                        [lit ''Deprecated products should not be imported''],
      processed_codes = {lit ''P2'', lit ''P1''}, tick = 2\<rparr>,
    [\<lparr>product_id = lit ''u0'', productCode = lit ''P1'', name = lit ''P1'',
      description = Some (lit ''Widget''), createdAt = 1000, modifiedAt = 1000\<rparr>,
     \<lparr>product_id = lit ''u1'', productCode = lit ''P2'', name = lit ''P2'',
      description = Some (lit ''Gadget''), createdAt = 1001, modifiedAt = 1001\<rparr>])"
proof -
  let ?r1 = "mk_row (lit ''p1'') (lit ''Widget'')"
  let ?r2 = "mk_row (lit ''p1'') (lit ''Deprecated widget'')"
  let ?r3 = "mk_row (lit '' p2 '') (lit ''Gadget'')"
  let ?A = "\<lparr>product_id = lit ''u0'', productCode = lit ''P1'', name = lit ''P1'',
      description = Some (lit ''Widget''), createdAt = 1000, modifiedAt = 1000\<rparr>"
  let ?B = "\<lparr>product_id = lit ''u1'', productCode = lit ''P2'', name = lit ''P2'',
      description = Some (lit ''Gadget''), createdAt = 1001, modifiedAt = 1001\<rparr>"
  let ?S3 = "\<lparr>batch_size = 2,
      stats = \<lparr>total_errors = 0, successful_batches = 1, failed_batches = 0, total_products = 1,
               created = 1, updated = 0, skipped = 0, validation_errors = 1\<rparr>,
      error_tracker = validation_records ?r2 [lit ''Deprecated products should not be imported''],
      processed_codes = {lit ''P1''}, tick = 1\<rparr>"
  have b1: "process_batch demo_env demo_mapping [?r1, ?r2] (new_processor 2) [] = (?S3, [?A])"
    unfolding process_batch_in_order demo_first_batch
    by (simp add: demo_no_raise(2) batch_succeeded_def)
  have b2: "process_batch demo_env demo_mapping [?r3] ?S3 [?A] =
      (\<lparr>batch_size = 2,
      stats = \<lparr>total_errors = 0, successful_batches = 2, failed_batches = 0, total_products = 2,
               created = 2, updated = 0, skipped = 0, validation_errors = 1\<rparr>,
      error_tracker = validation_records ?r2 [lit ''Deprecated products should not be imported''],
      processed_codes = {lit ''P2'', lit ''P1''}, tick = 2\<rparr>, [?A, ?B])"
    unfolding process_batch_in_order demo_second_batch
    by (simp add: demo_no_raise(2) batch_succeeded_def)
  show ?thesis by (simp only: run_batches.simps b1 b2 prod.case)
qed

theorem batches_partition_witness:
  "(0::int) < 2
   \<and> batch_size (new_processor default_batch_size) = 100
   \<and> batches 2 demo_rows =
       [[mk_row (lit ''p1'') (lit ''Widget''), mk_row (lit ''p1'') (lit ''Deprecated widget'')],
        [mk_row (lit '' p2 '') (lit ''Gadget'')]]
   \<and> concat (batches 2 demo_rows) = demo_rows
   \<and> \<lceil>real (length demo_rows) / real_of_int 2\<rceil> = 2
   \<and> length (batches 2 demo_rows ! 0) = nat 2
   \<and> failed_batches (stats (fst (snd (process_file demo_env (lit ''products.csv'') (new_processor 2) []))))
       + successful_batches (stats (fst (snd (process_file demo_env (lit ''products.csv'') (new_processor 2) []))))
      = 2
   \<and> process_rows demo_env demo_mapping
        [mk_row (lit ''p1'') (lit ''Widget''), mk_row (lit ''p1'') (lit ''Deprecated widget'')]
        (new_processor 2) [] =
       (None,
        \<lparr>batch_size = 2,
          stats = \<lparr>total_errors = 0, successful_batches = 0, failed_batches = 0, total_products = 1,
                   created = 1, updated = 0, skipped = 0, validation_errors = 1\<rparr>,
          error_tracker = validation_records (mk_row (lit ''p1'') (lit ''Deprecated widget''))
                            [lit ''Deprecated products should not be imported''],
          processed_codes = {lit ''P1''}, tick = 1\<rparr>,
        [\<lparr>product_id = lit ''u0'', productCode = lit ''P1'', name = lit ''P1'',
          description = Some (lit ''Widget''), createdAt = 1000, modifiedAt = 1000\<rparr>])
   \<and> snd (process_file demo_env (lit ''products.csv'') (new_processor 2) []) =
       (\<lparr>batch_size = 2,
          stats = \<lparr>total_errors = 0, successful_batches = 2, failed_batches = 0, total_products = 2,
                   created = 2, updated = 0, skipped = 0, validation_errors = 1\<rparr>,
          error_tracker = validation_records (mk_row (lit ''p1'') (lit ''Deprecated widget''))
                            [lit ''Deprecated products should not be imported''],
          processed_codes = {lit ''P2'', lit ''P1''}, tick = 2\<rparr>,
        [\<lparr>product_id = lit ''u0'', productCode = lit ''P1'', name = lit ''P1'',
          description = Some (lit ''Widget''), createdAt = 1000, modifiedAt = 1000\<rparr>,
         \<lparr>product_id = lit ''u1'', productCode = lit ''P2'', name = lit ''P2'',
          description = Some (lit ''Gadget''), createdAt = 1001, modifiedAt = 1001\<rparr>])"
proof -
  have p: "(0::int) < 2" by simp
  note a = batches_partition [OF p, of demo_rows "new_processor 2" demo_env "[]" "[]"
      "lit ''products.csv''" "\<lparr>columns = demo_columns, rows = demo_rows\<rparr>" demo_mapping "[]" "[]" "[]" "[]"
      "[mk_row (lit ''p1'') (lit ''Widget''), mk_row (lit ''p1'') (lit ''Deprecated widget'')]"
      "(new_processor 2, [])" "mk_row (lit '' p2 '') (lit ''Gadget'')"]
  have h: "batch_size (new_processor 2) = 2 \<and> initialize_system_products demo_env [] = Inr []
      \<and> read_csv demo_env (lit ''products.csv'') = Inr \<lparr>columns = demo_columns, rows = demo_rows\<rparr>
      \<and> all_fields_mapped (header_mapping_of (columns \<lparr>columns = demo_columns, rows = demo_rows\<rparr>))
      \<and> rows \<lparr>columns = demo_columns, rows = demo_rows\<rparr> = demo_rows"
    by (simp add: new_processor_def demo_env_io(1) read_products demo_columns_mapped)
  have l: "length (batches 2 demo_rows) = 2" by (simp add: demo_batches)
  from a have c: "concat (batches 2 demo_rows) = demo_rows" by (rule conjunct1)
  from a l have e: "\<lceil>real (length demo_rows) / real_of_int 2\<rceil> = 2" by simp
  from a have "\<forall>i<length (batches 2 demo_rows).
           batches 2 demo_rows ! i = take (nat 2) (drop (i * nat 2) demo_rows)
         \<and> 0 < length (batches 2 demo_rows ! i) \<and> length (batches 2 demo_rows ! i) \<le> nat 2
         \<and> (Suc i < length (batches 2 demo_rows) \<longrightarrow> length (batches 2 demo_rows ! i) = nat 2)"
    by (elim conjE)
  then have "0 < length (batches 2 demo_rows) \<longrightarrow>
      (Suc 0 < length (batches 2 demo_rows) \<longrightarrow> length (batches 2 demo_rows ! 0) = nat 2)"
    by blast
  with l have n: "length (batches 2 demo_rows ! 0) = nat 2" by (simp del: nth_Cons_0)
  note f = a [THEN conjunct2, THEN conjunct2, THEN conjunct2, THEN conjunct1, rule_format, OF h]
  from f [THEN conjunct2] e
  have r: "failed_batches (stats (fst (snd (process_file demo_env (lit ''products.csv'') (new_processor 2) []))))
       + successful_batches (stats (fst (snd (process_file demo_env (lit ''products.csv'') (new_processor 2) []))))
      = 2"
    by (simp add: new_processor_def)
  have d: "batch_size (new_processor default_batch_size) = 100"
    by (simp add: new_processor_def default_batch_size_def)
  have "process_rows demo_env demo_mapping
        [mk_row (lit ''p1'') (lit ''Widget''), mk_row (lit ''p1'') (lit ''Deprecated widget'')]
        (new_processor 2) [] =
      (None, handled_in_order demo_env demo_mapping
        [mk_row (lit ''p1'') (lit ''Widget''), mk_row (lit ''p1'') (lit ''Deprecated widget'')]
        (new_processor 2, []))"
    using a by (elim conjE)
  then have o: "process_rows demo_env demo_mapping
        [mk_row (lit ''p1'') (lit ''Widget''), mk_row (lit ''p1'') (lit ''Deprecated widget'')]
        (new_processor 2) [] =
       (None,
        \<lparr>batch_size = 2,
          stats = \<lparr>total_errors = 0, successful_batches = 0, failed_batches = 0, total_products = 1,
                   created = 1, updated = 0, skipped = 0, validation_errors = 1\<rparr>,
          error_tracker = validation_records (mk_row (lit ''p1'') (lit ''Deprecated widget''))
                            [lit ''Deprecated products should not be imported''],
          processed_codes = {lit ''P1''}, tick = 1\<rparr>,
        [\<lparr>product_id = lit ''u0'', productCode = lit ''P1'', name = lit ''P1'',
          description = Some (lit ''Widget''), createdAt = 1000, modifiedAt = 1000\<rparr>])"
    by (simp only: demo_first_batch)
  from f [THEN conjunct1]
  have "snd (process_file demo_env (lit ''products.csv'') (new_processor 2) []) =
      run_batches demo_env demo_mapping (batches 2 demo_rows) (new_processor 2) []"
    by (simp add: demo_mapping_def del: run_batches.simps)
  then have w: "snd (process_file demo_env (lit ''products.csv'') (new_processor 2) []) =
       (\<lparr>batch_size = 2,
          stats = \<lparr>total_errors = 0, successful_batches = 2, failed_batches = 0, total_products = 2,
                   created = 2, updated = 0, skipped = 0, validation_errors = 1\<rparr>,
          error_tracker = validation_records (mk_row (lit ''p1'') (lit ''Deprecated widget''))
                            [lit ''Deprecated products should not be imported''],
          processed_codes = {lit ''P2'', lit ''P1''}, tick = 2\<rparr>,
        [\<lparr>product_id = lit ''u0'', productCode = lit ''P1'', name = lit ''P1'',
          description = Some (lit ''Widget''), createdAt = 1000, modifiedAt = 1000\<rparr>,
         \<lparr>product_id = lit ''u1'', productCode = lit ''P2'', name = lit ''P2'',
          description = Some (lit ''Gadget''), createdAt = 1001, modifiedAt = 1001\<rparr>])"
    by (simp only: demo_batches demo_run_in_order)
  from p d demo_batches c e n r o w show ?thesis by (intro conjI)
qed

end
